theory Spec2Isabelle
  imports Complex_Main
begin

section \<open>JavaScript values\<close>

text \<open>
  The settings that reach the background worker come from \<^verbatim>\<open>chrome.storage.local\<close> and from
  popup messages, so they are arbitrary JSON-like values. A JavaScript number is either a
  finite value, \<^verbatim>\<open>NaN\<close> or one of the two infinities. Finite numbers are represented by
  exact rationals: every binary64 value is a rational, and the operations the program
  applies to settings (comparison with a bound, \<^verbatim>\<open>Math.floor\<close>, copying) are exact on
  binary64 values. Rounding of a parsed decimal literal to the nearest binary64 value is not
  represented (except overflow to an infinity), and \<^verbatim>\<open>-0\<close> is identified with \<^verbatim>\<open>0\<close>.
\<close>

datatype jsnum = Fin rat | NaN | PosInf | NegInf

datatype jsval =
    JUndefined
  | JNull
  | JBool bool
  | JNum jsnum
  | JStr string
  | JArr "jsval list"
  | JObj "(string \<times> jsval) list"

datatype jserror = TypeError

text \<open>\<^verbatim>\<open>Boolean(v)\<close>: the falsy values are undefined, null, false, 0, NaN and the empty string.\<close>

fun truthy :: "jsval \<Rightarrow> bool" where
  "truthy JUndefined = False"
| "truthy JNull = False"
| "truthy (JBool b) = b"
| "truthy (JNum (Fin r)) = (r \<noteq> 0)"
| "truthy (JNum NaN) = False"
| "truthy (JNum PosInf) = True"
| "truthy (JNum NegInf) = True"
| "truthy (JStr s) = (s \<noteq> [])"
| "truthy (JArr xs) = True"
| "truthy (JObj kvs) = True"

definition nullish :: "jsval \<Rightarrow> bool" where
  "nullish v = (v = JUndefined \<or> v = JNull)"

subsection \<open>Own enumerable properties\<close>

definition digitChar :: "nat \<Rightarrow> char" where
  "digitChar d = char_of (48 + d)"

function decimalString :: "nat \<Rightarrow> string" where
  "decimalString n =
     (if n < 10 then [digitChar n] else decimalString (n div 10) @ [digitChar (n mod 10)])"
  by pat_completeness auto
termination
  by (relation "measure (\<lambda>n. n)") auto

text \<open>
  An object is an association list in which the first binding of a key is the one that
  counts. The own enumerable properties of an array or of a string are its index keys
  (this is what an object spread copies); the other primitives have none.
\<close>

definition indexed :: "jsval list \<Rightarrow> (string \<times> jsval) list" where
  "indexed xs = zip (map decimalString [0 ..< length xs]) xs"

fun ownProps :: "jsval \<Rightarrow> (string \<times> jsval) list" where
  "ownProps (JObj kvs) = kvs"
| "ownProps (JArr xs) = indexed xs"
| "ownProps (JStr s) = indexed (map (\<lambda>c. JStr [c]) s)"
| "ownProps v = []"

text \<open>
  Reading a property \<^verbatim>\<open>v.k\<close> of a value that is neither undefined nor null. Only the
  setting names (\<^verbatim>\<open>durations\<close>, \<^verbatim>\<open>work\<close>, \<^verbatim>\<open>desktop\<close>, ...) are ever read, none of
  which is found on a prototype, so a key that is not an own property reads as undefined.
\<close>

definition getp :: "jsval \<Rightarrow> string \<Rightarrow> jsval" where
  "getp v k = (case map_of (ownProps v) k of Some x \<Rightarrow> x | None \<Rightarrow> JUndefined)"

text \<open>Optional chaining \<^verbatim>\<open>v?.k\<close>.\<close>

definition optChain :: "jsval \<Rightarrow> string \<Rightarrow> jsval" where
  "optChain v k = (if nullish v then JUndefined else getp v k)"

subsection \<open>Conversion to a number\<close>

text \<open>
  \<^verbatim>\<open>Number(s)\<close> on a string follows the StringNumericLiteral grammar of ECMAScript:
  surrounding white space is dropped, the empty string is 0, and the rest is a signed
  decimal literal (with optional fraction and exponent, or \<^verbatim>\<open>Infinity\<close>) or an unsigned
  binary, octal or hexadecimal integer; anything else is NaN. Characters are code units
  below 256.
\<close>

definition isStrWhiteSpace :: "char \<Rightarrow> bool" where
  "isStrWhiteSpace c = (of_char c \<in> {9, 10, 11, 12, 13, 32, 160 :: nat})"

definition trimString :: "string \<Rightarrow> string" where
  "trimString s = rev (dropWhile isStrWhiteSpace (rev (dropWhile isStrWhiteSpace s)))"

definition isDecimalDigit :: "char \<Rightarrow> bool" where
  "isDecimalDigit c = (48 \<le> (of_char c :: nat) \<and> (of_char c :: nat) \<le> 57)"

definition digitValue :: "char \<Rightarrow> nat option" where
  "digitValue c =
     (let n = of_char c :: nat in
      if 48 \<le> n \<and> n \<le> 57 then Some (n - 48)
      else if 97 \<le> n \<and> n \<le> 102 then Some (n - 87)
      else if 65 \<le> n \<and> n \<le> 70 then Some (n - 55)
      else None)"

fun digitsValue :: "nat \<Rightarrow> nat \<Rightarrow> string \<Rightarrow> nat option" where
  "digitsValue b acc [] = Some acc"
| "digitsValue b acc (c # cs) =
     (case digitValue c of
        None \<Rightarrow> None
      | Some d \<Rightarrow> if d < b then digitsValue b (acc * b + d) cs else None)"

definition parseDigits :: "nat \<Rightarrow> string \<Rightarrow> nat option" where
  "parseDigits b s = (if s = [] then None else digitsValue b 0 s)"

text \<open>A mathematical value beyond the binary64 range becomes an infinity.\<close>

definition roundMV :: "rat \<Rightarrow> jsnum" where
  "roundMV r =
     (if 2 ^ 1024 - 2 ^ 970 \<le> \<bar>r\<bar> then (if 0 < r then PosInf else NegInf) else Fin r)"

definition pow10 :: "int \<Rightarrow> rat" where
  "pow10 e = (if 0 \<le> e then 10 ^ nat e else 1 / 10 ^ nat (- e))"

definition parseExponent :: "string \<Rightarrow> int option" where
  "parseExponent s =
     (case s of
        [] \<Rightarrow> Some 0
      | c # r \<Rightarrow>
          if c = CHR ''e'' \<or> c = CHR ''E'' then
            (case r of
               [] \<Rightarrow> None
             | d # ds \<Rightarrow>
                 if d = CHR ''+'' then map_option int (parseDigits 10 ds)
                 else if d = CHR ''-'' then map_option (\<lambda>n. - int n) (parseDigits 10 ds)
                 else map_option int (parseDigits 10 r))
          else None)"

definition parseUnsignedDecimal :: "string \<Rightarrow> jsnum option" where
  "parseUnsignedDecimal s =
     (if s = ''Infinity'' then Some PosInf
      else
        let ip = takeWhile isDecimalDigit s;
            r1 = dropWhile isDecimalDigit s;
            dot = (r1 \<noteq> [] \<and> hd r1 = CHR ''.'');
            fp = (if dot then takeWhile isDecimalDigit (tl r1) else []);
            r2 = (if dot then dropWhile isDecimalDigit (tl r1) else r1)
        in if ip = [] \<and> fp = [] then None
           else
             (case (digitsValue 10 0 (ip @ fp), parseExponent r2) of
                (Some m, Some e) \<Rightarrow> Some (roundMV (of_nat m * pow10 (e - int (length fp))))
              | _ \<Rightarrow> None))"

fun negate :: "jsnum \<Rightarrow> jsnum" where
  "negate (Fin r) = Fin (- r)"
| "negate NaN = NaN"
| "negate PosInf = NegInf"
| "negate NegInf = PosInf"

definition parseStrDecimal :: "string \<Rightarrow> jsnum option" where
  "parseStrDecimal s =
     (case s of
        [] \<Rightarrow> None
      | c # r \<Rightarrow>
          if c = CHR ''+'' then parseUnsignedDecimal r
          else if c = CHR ''-'' then map_option negate (parseUnsignedDecimal r)
          else parseUnsignedDecimal s)"

definition parseNonDecimal :: "string \<Rightarrow> jsnum option" where
  "parseNonDecimal s =
     (case s of
        c0 # c1 # ds \<Rightarrow>
          if c0 \<noteq> CHR ''0'' then None
          else if c1 = CHR ''x'' \<or> c1 = CHR ''X'' then
            map_option (\<lambda>n. roundMV (of_nat n)) (parseDigits 16 ds)
          else if c1 = CHR ''o'' \<or> c1 = CHR ''O'' then
            map_option (\<lambda>n. roundMV (of_nat n)) (parseDigits 8 ds)
          else if c1 = CHR ''b'' \<or> c1 = CHR ''B'' then
            map_option (\<lambda>n. roundMV (of_nat n)) (parseDigits 2 ds)
          else None
      | _ \<Rightarrow> None)"

definition StringToNumber :: "string \<Rightarrow> jsnum" where
  "StringToNumber s =
     (let t = trimString s in
      if t = [] then Fin 0
      else
        (case parseNonDecimal t of
           Some n \<Rightarrow> n
         | None \<Rightarrow> (case parseStrDecimal t of Some n \<Rightarrow> n | None \<Rightarrow> NaN)))"

text \<open>
  \<^verbatim>\<open>Number(v)\<close>. A plain object converts through \<^verbatim>\<open>"[object Object]"\<close> to NaN. An array
  converts through the comma-separated join of its elements: the empty array gives the
  empty string, a one-element array gives the string of its element (empty for undefined
  and null), and a longer array gives a string with a comma in it, which is no numeric
  literal.
\<close>

fun toNumber :: "jsval \<Rightarrow> jsnum" where
  "toNumber JUndefined = NaN"
| "toNumber JNull = Fin 0"
| "toNumber (JBool b) = Fin (if b then 1 else 0)"
| "toNumber (JNum n) = n"
| "toNumber (JStr s) = StringToNumber s"
| "toNumber (JObj kvs) = NaN"
| "toNumber (JArr []) = Fin 0"
| "toNumber (JArr [JUndefined]) = Fin 0"
| "toNumber (JArr [JNull]) = Fin 0"
| "toNumber (JArr [JBool b]) = NaN"
| "toNumber (JArr [JNum n]) = n"
| "toNumber (JArr [JStr s]) = StringToNumber s"
| "toNumber (JArr [JObj kvs]) = NaN"
| "toNumber (JArr [JArr ys]) = toNumber (JArr ys)"
| "toNumber (JArr (x # y # zs)) = NaN"

section \<open>Settings\<close>

record Durations =
  work :: rat
  shortBreak :: rat
  longBreak :: rat

record Notifications =
  desktop :: bool
  sound :: bool
  soundType :: string

record TickingSound =
  enabled :: bool

record Settings =
  durations :: Durations
  longBreakInterval :: int
  autoStartBreaks :: bool
  autoStartWork :: bool
  notifications :: Notifications
  tickingSound :: TickingSound

definition DEFAULT_SETTINGS :: Settings where
  "DEFAULT_SETTINGS =
     \<lparr> durations = \<lparr> work = 25 * 60, shortBreak = 5 * 60, longBreak = 15 * 60 \<rparr>,
       longBreakInterval = 4,
       autoStartBreaks = False,
       autoStartWork = False,
       notifications = \<lparr> desktop = True, sound = True, soundType = ''beep'' \<rparr>,
       tickingSound = \<lparr> enabled = False \<rparr> \<rparr>"

text \<open>A settings object as the JavaScript value it is, for spreading and for storage.\<close>

definition durationsObj :: "Durations \<Rightarrow> jsval" where
  "durationsObj d =
     JObj [(''work'', JNum (Fin (work d))),
           (''shortBreak'', JNum (Fin (shortBreak d))),
           (''longBreak'', JNum (Fin (longBreak d)))]"

definition notificationsObj :: "Notifications \<Rightarrow> jsval" where
  "notificationsObj n =
     JObj [(''desktop'', JBool (desktop n)),
           (''sound'', JBool (sound n)),
           (''soundType'', JStr (soundType n))]"

definition tickingSoundObj :: "TickingSound \<Rightarrow> jsval" where
  "tickingSoundObj t = JObj [(''enabled'', JBool (enabled t))]"

definition settingsObj :: "Settings \<Rightarrow> jsval" where
  "settingsObj s =
     JObj [(''durations'', durationsObj (durations s)),
           (''longBreakInterval'', JNum (Fin (of_int (longBreakInterval s)))),
           (''autoStartBreaks'', JBool (autoStartBreaks s)),
           (''autoStartWork'', JBool (autoStartWork s)),
           (''notifications'', notificationsObj (notifications s)),
           (''tickingSound'', tickingSoundObj (tickingSound s))]"

text \<open>
  \<^verbatim>\<open>sanitizeNumber(value, fallback, min, max)\<close>. Every call passes finite literals for the
  bounds, so the two \<^verbatim>\<open>Number.isFinite\<close> tests on the bounds are true.
\<close>

definition sanitizeNumber :: "jsval \<Rightarrow> rat \<Rightarrow> rat \<Rightarrow> rat \<Rightarrow> rat" where
  "sanitizeNumber v fallback minv maxv =
     (case toNumber v of
        Fin number \<Rightarrow>
          if number < minv then fallback
          else if number > maxv then fallback
          else number
      | _ \<Rightarrow> fallback)"

text \<open>
  \<^verbatim>\<open>['beep', 'chime', 'bell'].includes(v)\<close> holds for these three strings only.
\<close>

definition sanitizeSoundType :: "jsval \<Rightarrow> string" where
  "sanitizeSoundType v =
     (case v of
        JStr s \<Rightarrow> if s \<in> set [''beep'', ''chime'', ''bell''] then s
                  else soundType (notifications DEFAULT_SETTINGS)
      | _ \<Rightarrow> soundType (notifications DEFAULT_SETTINGS))"

text \<open>
  \<^verbatim>\<open>sanitizeSettings(rawSettings)\<close>. The first property read, \<^verbatim>\<open>rawSettings.durations\<close>,
  throws a TypeError when the argument is undefined or null.
\<close>

definition sanitizeSettings :: "jsval \<Rightarrow> jserror + Settings" where
  "sanitizeSettings rawSettings =
     (if nullish rawSettings then Inl TypeError
      else Inr
        \<lparr> durations =
            \<lparr> work = sanitizeNumber (optChain (getp rawSettings ''durations'') ''work'')
                       (work (durations DEFAULT_SETTINGS)) 60 (60 * 60),
              shortBreak = sanitizeNumber (optChain (getp rawSettings ''durations'') ''shortBreak'')
                       (shortBreak (durations DEFAULT_SETTINGS)) 60 (30 * 60),
              longBreak = sanitizeNumber (optChain (getp rawSettings ''durations'') ''longBreak'')
                       (longBreak (durations DEFAULT_SETTINGS)) 60 (60 * 60) \<rparr>,
          longBreakInterval =
            \<lfloor>sanitizeNumber (getp rawSettings ''longBreakInterval'')
                (of_int (longBreakInterval DEFAULT_SETTINGS)) 0 12\<rfloor>,
          autoStartBreaks = truthy (getp rawSettings ''autoStartBreaks''),
          autoStartWork = truthy (getp rawSettings ''autoStartWork''),
          notifications =
            \<lparr> desktop = (optChain (getp rawSettings ''notifications'') ''desktop'' \<noteq> JBool False),
              sound = (optChain (getp rawSettings ''notifications'') ''sound'' \<noteq> JBool False),
              soundType = sanitizeSoundType (optChain (getp rawSettings ''notifications'') ''soundType'') \<rparr>,
          tickingSound =
            \<lparr> enabled = truthy (optChain (getp rawSettings ''tickingSound'') ''enabled'') \<rparr> \<rparr>)"

text \<open>
  \<^verbatim>\<open>mergeSettings(savedSettings, legacyDurations)\<close>. In an object literal a later entry
  overrides an earlier one, so the explicit \<^verbatim>\<open>durations\<close>, \<^verbatim>\<open>notifications\<close> and
  \<^verbatim>\<open>tickingSound\<close> entries come first in the association list, then the spread of the saved
  settings, then the spread of the defaults.
\<close>

definition nestedOrEmpty :: "jsval \<Rightarrow> string \<Rightarrow> jsval" where
  "nestedOrEmpty savedSettings k =
     (if truthy savedSettings \<and> truthy (getp savedSettings k) then getp savedSettings k
      else JObj [])"

definition mergedObject :: "jsval \<Rightarrow> jsval \<Rightarrow> jsval" where
  "mergedObject savedSettings legacyDurations =
     (let mergedDurations =
            ownProps (nestedOrEmpty savedSettings ''durations'')
              @ ownProps (durationsObj (durations DEFAULT_SETTINGS));
          merged =
            [(''durations'',
                JObj (if truthy legacyDurations
                      then ownProps legacyDurations @ mergedDurations
                      else mergedDurations)),
             (''notifications'',
                JObj (ownProps (nestedOrEmpty savedSettings ''notifications'')
                      @ ownProps (notificationsObj (notifications DEFAULT_SETTINGS)))),
             (''tickingSound'',
                JObj (ownProps (nestedOrEmpty savedSettings ''tickingSound'')
                      @ ownProps (tickingSoundObj (tickingSound DEFAULT_SETTINGS))))]
            @ ownProps savedSettings
            @ ownProps (settingsObj DEFAULT_SETTINGS)
      in JObj merged)"

definition mergeSettings :: "jsval \<Rightarrow> jsval \<Rightarrow> jserror + Settings" where
  "mergeSettings savedSettings legacyDurations =
     sanitizeSettings (mergedObject savedSettings legacyDurations)"

section \<open>Timer state and its environment\<close>

datatype SessionType = WORK | SHORT_BREAK | LONG_BREAK

text \<open>
  The timer state object. Timestamps are milliseconds (\<^verbatim>\<open>Date.now()\<close>), \<^verbatim>\<open>null\<close> is
  \<open>None\<close>. Durations are seconds and need not be whole numbers, because the sanitizer
  lets any finite number within the bounds through; they are exact rationals, as above, so
  a subtraction is not rounded. \<^verbatim>\<open>tickInterval\<close> is the interval
  handle the program keeps as a property of the same object; only whether it is set matters.
\<close>

record TimerState =
  isRunning :: bool
  isPaused :: bool
  currentSession :: SessionType
  timeRemaining :: rat
  cycleCount :: nat
  startTime :: "int option"
  pausedAt :: "int option"
  totalPausedTime :: int
  initialDuration :: rat
  tickInterval :: bool

text \<open>The keys of \<^verbatim>\<open>chrome.storage.local\<close> that the worker uses.\<close>

record Store =
  storedSettings :: jsval
  storedDurations :: jsval
  storedTimerState :: "TimerState option"
  sessionHistory :: "string \<rightharpoonup> nat"

text \<open>
  The worker's globals \<^verbatim>\<open>settings\<close> and \<^verbatim>\<open>timerState\<close>, the storage area, and the
  time at which the alarm \<^verbatim>\<open>pomodoro-end\<close> is due (if it is scheduled).
\<close>

record World =
  settings :: Settings
  timerState :: TimerState
  storage :: Store
  endAlarm :: "rat option"

text \<open>
  What an operation reads from outside: the clock, the date string of the day, and whether
  the storage calls of this operation succeed. A storage call that fails throws, and the
  program catches that in \<^verbatim>\<open>loadSettings\<close>, \<^verbatim>\<open>loadState\<close>, \<^verbatim>\<open>saveState\<close>,
  \<^verbatim>\<open>updateSessionHistory\<close> and the message handler. One operation reads the clock at one
  instant. Notifications, sounds and the badge leave the state alone and are left out.
\<close>

record Env =
  now :: int
  today :: string
  storageOk :: bool

definition initialTimerState :: TimerState where
  "initialTimerState =
     \<lparr> isRunning = False, isPaused = False, currentSession = WORK,
       timeRemaining = work (durations DEFAULT_SETTINGS), cycleCount = 0,
       startTime = None, pausedAt = None, totalPausedTime = 0,
       initialDuration = work (durations DEFAULT_SETTINGS), tickInterval = False \<rparr>"

definition initialWorld :: World where
  "initialWorld =
     \<lparr> settings = DEFAULT_SETTINGS,
       timerState = initialTimerState,
       storage = \<lparr> storedSettings = JUndefined, storedDurations = JUndefined,
                   storedTimerState = None, sessionHistory = Map.empty \<rparr>,
       endAlarm = None \<rparr>"

text \<open>A timestamp in arithmetic (\<^verbatim>\<open>null\<close> counts as 0) and as a condition.\<close>

fun numOrZero :: "int option \<Rightarrow> int" where
  "numOrZero None = 0"
| "numOrZero (Some t) = t"

fun truthyTime :: "int option \<Rightarrow> bool" where
  "truthyTime None = False"
| "truthyTime (Some t) = (t \<noteq> 0)"

section \<open>The operations of the background worker\<close>

definition loadSettings :: "Env \<Rightarrow> World \<Rightarrow> World" where
  "loadSettings e w =
     (if \<not> storageOk e then w\<lparr>settings := DEFAULT_SETTINGS\<rparr>
      else
        (case mergeSettings (storedSettings (storage w)) (storedDurations (storage w)) of
           Inl err \<Rightarrow> w\<lparr>settings := DEFAULT_SETTINGS\<rparr>
         | Inr s \<Rightarrow>
             w\<lparr>settings := s,
               storage := (storage w)\<lparr>storedSettings := settingsObj s,
                                      storedDurations := durationsObj (durations s)\<rparr>\<rparr>))"

fun getSessionDuration :: "Settings \<Rightarrow> SessionType \<Rightarrow> rat" where
  "getSessionDuration s WORK = work (durations s)"
| "getSessionDuration s SHORT_BREAK = shortBreak (durations s)"
| "getSessionDuration s LONG_BREAK = longBreak (durations s)"

definition saveState :: "Env \<Rightarrow> World \<Rightarrow> World" where
  "saveState e w =
     (if storageOk e then w\<lparr>storage := (storage w)\<lparr>storedTimerState := Some (timerState w)\<rparr>\<rparr>
      else w)"

definition scheduleEndAlarm :: "Env \<Rightarrow> World \<Rightarrow> World" where
  "scheduleEndAlarm e w =
     (if \<not> isRunning (timerState w) \<or> isPaused (timerState w)
         \<or> \<not> truthyTime (startTime (timerState w)) then w
      else w\<lparr>endAlarm := Some (of_int (now e) + max (timeRemaining (timerState w)) 1 * 1000)\<rparr>)"

definition clearEndAlarm :: "World \<Rightarrow> World" where
  "clearEndAlarm w = w\<lparr>endAlarm := None\<rparr>"

text \<open>\<^verbatim>\<open>startTick\<close> installs the interval; its callback is \<open>tick\<close> below.\<close>

definition startTick :: "World \<Rightarrow> World" where
  "startTick w = w\<lparr>timerState := (timerState w)\<lparr>tickInterval := True\<rparr>\<rparr>"

definition updateSessionHistory :: "Env \<Rightarrow> World \<Rightarrow> World" where
  "updateSessionHistory e w =
     (if \<not> storageOk e then w
      else
        let history = sessionHistory (storage w);
            count = (case history (today e) of None \<Rightarrow> 0 | Some c \<Rightarrow> c)
        in w\<lparr>storage := (storage w)\<lparr>sessionHistory := history(today e \<mapsto> count + 1)\<rparr>\<rparr>)"

text \<open>
  \<^verbatim>\<open>handleTimerComplete\<close>, for an invocation that runs from its first line to its last
  with no other event served in between. Its suspensions are taken apart further below.
\<close>

definition handleTimerComplete :: "Env \<Rightarrow> World \<Rightarrow> World" where
  "handleTimerComplete e w =
     (let w1 = (if currentSession (timerState w) = WORK
                then (let wh = updateSessionHistory e w
                      in wh\<lparr>timerState := (timerState wh)\<lparr>cycleCount := cycleCount (timerState wh) + 1\<rparr>\<rparr>)
                else w);
          t1 = timerState w1;
          t2 = (if currentSession t1 = WORK then
                  (if longBreakInterval (settings w1) > 0
                      \<and> int (cycleCount t1) mod longBreakInterval (settings w1) = 0
                   then t1\<lparr>currentSession := LONG_BREAK,
                           timeRemaining := getSessionDuration (settings w1) LONG_BREAK\<rparr>
                   else t1\<lparr>currentSession := SHORT_BREAK,
                           timeRemaining := getSessionDuration (settings w1) SHORT_BREAK\<rparr>)
                else t1\<lparr>currentSession := WORK,
                        timeRemaining := getSessionDuration (settings w1) WORK\<rparr>);
          t3 = t2\<lparr>isPaused := False, totalPausedTime := 0, pausedAt := None,
                  initialDuration := timeRemaining t2, startTime := None\<rparr>;
          shouldAutostart = (if currentSession t3 = WORK then autoStartWork (settings w1)
                             else autoStartBreaks (settings w1));
          t4 = t3\<lparr>isRunning := shouldAutostart\<rparr>;
          w2 = (if shouldAutostart
                then startTick (scheduleEndAlarm e (w1\<lparr>timerState := t4\<lparr>startTime := Some (now e)\<rparr>\<rparr>))
                else clearEndAlarm (w1\<lparr>timerState := t4\<rparr>))
      in saveState e w2)"

definition startTimer :: "Env \<Rightarrow> World \<Rightarrow> World" where
  "startTimer e w =
     (if isRunning (timerState w) \<and> \<not> isPaused (timerState w) then w
      else
        let w1 = (if isPaused (timerState w) then
                    w\<lparr>timerState := (timerState w)
                        \<lparr>totalPausedTime := totalPausedTime (timerState w)
                                             + (now e - numOrZero (pausedAt (timerState w))),
                         isPaused := False,
                         pausedAt := None\<rparr>\<rparr>
                  else
                    (let wl = loadSettings e w;
                         sessionDuration = getSessionDuration (settings wl) (currentSession (timerState wl))
                     in wl\<lparr>timerState := (timerState wl)
                          \<lparr>isRunning := True,
                           startTime := Some (now e),
                           totalPausedTime := 0,
                           timeRemaining := sessionDuration,
                           initialDuration := sessionDuration\<rparr>\<rparr>))
        in startTick (scheduleEndAlarm e (saveState e w1)))"

definition pauseTimer :: "Env \<Rightarrow> World \<Rightarrow> World" where
  "pauseTimer e w =
     (if \<not> isRunning (timerState w) \<or> isPaused (timerState w) then w
      else
        let t = timerState w;
            t1 = (if truthyTime (startTime t) \<and> initialDuration t \<noteq> 0 then
                    (let elapsedMs = now e - numOrZero (startTime t) - totalPausedTime t;
                         elapsedSeconds = elapsedMs div 1000
                     in t\<lparr>timeRemaining := max 0 (initialDuration t - of_int elapsedSeconds)\<rparr>)
                  else t);
            t2 = t1\<lparr>isPaused := True, pausedAt := Some (now e)\<rparr>;
            t3 = (if tickInterval t2 then t2\<lparr>tickInterval := False\<rparr> else t2)
        in saveState e (clearEndAlarm (w\<lparr>timerState := t3\<rparr>)))"

definition resetTimer :: "Env \<Rightarrow> World \<Rightarrow> World" where
  "resetTimer e w =
     (let wl = loadSettings e w;
          t = (timerState wl)
                \<lparr>isRunning := False, isPaused := False, startTime := None, pausedAt := None,
                 totalPausedTime := 0, cycleCount := 0, currentSession := WORK,
                 timeRemaining := getSessionDuration (settings wl) WORK,
                 initialDuration := getSessionDuration (settings wl) WORK\<rparr>
      in clearEndAlarm (saveState e (wl\<lparr>timerState := t\<rparr>)))"

definition skipSession :: "Env \<Rightarrow> World \<Rightarrow> World" where
  "skipSession e w = handleTimerComplete e w"

text \<open>The callback of the one-second interval.\<close>

definition tick :: "Env \<Rightarrow> World \<Rightarrow> World" where
  "tick e w =
     (let t = timerState w in
      if \<not> isRunning t \<or> isPaused t then w\<lparr>timerState := t\<lparr>tickInterval := False\<rparr>\<rparr>
      else
        let elapsedMs = now e - numOrZero (startTime t) - totalPausedTime t;
            elapsedSeconds = elapsedMs div 1000;
            calculatedRemaining = max 0 (initialDuration t - of_int elapsedSeconds)
        in if timeRemaining t \<noteq> calculatedRemaining then
             (if calculatedRemaining \<le> 0 then
                handleTimerComplete e
                  (w\<lparr>timerState := t\<lparr>timeRemaining := calculatedRemaining, tickInterval := False\<rparr>\<rparr>)
              else saveState e (w\<lparr>timerState := t\<lparr>timeRemaining := calculatedRemaining\<rparr>\<rparr>))
           else w)"

text \<open>
  \<^verbatim>\<open>loadState\<close>. The stored timer state is one that \<open>saveState\<close> wrote, so its fields
  are finite numbers and the \<^verbatim>\<open>Number.isFinite\<close> fallbacks for \<^verbatim>\<open>initialDuration\<close>
  pick the stored value.
\<close>

definition loadState :: "Env \<Rightarrow> World \<Rightarrow> World" where
  "loadState e w =
     (let wl = loadSettings e w in
      if \<not> storageOk e then wl
      else
        (case storedTimerState (storage wl) of
           Some t \<Rightarrow>
             if isRunning t \<and> \<not> isPaused t \<and> truthyTime (startTime t) then
               (let elapsedMs = now e - numOrZero (startTime t) - totalPausedTime t;
                    elapsedSeconds = elapsedMs div 1000;
                    t1 = t\<lparr>timeRemaining := max 0 (initialDuration t - of_int elapsedSeconds)\<rparr>
                in if timeRemaining t1 \<le> 0 then handleTimerComplete e (wl\<lparr>timerState := t1\<rparr>)
                   else wl\<lparr>timerState := t1\<rparr>)
             else if \<not> isRunning t \<and> \<not> isPaused t then
               (let expectedDuration = getSessionDuration (settings wl) (currentSession t)
                in if timeRemaining t \<noteq> expectedDuration then
                     saveState e (wl\<lparr>timerState := t\<lparr>timeRemaining := expectedDuration,
                                                      initialDuration := expectedDuration\<rparr>\<rparr>)
                   else wl\<lparr>timerState := t\<rparr>)
             else wl\<lparr>timerState := t\<rparr>
         | None \<Rightarrow>
             saveState e
               (wl\<lparr>timerState := (timerState wl)
                    \<lparr>currentSession := WORK,
                     timeRemaining := getSessionDuration (settings wl) WORK,
                     initialDuration := getSessionDuration (settings wl) WORK\<rparr>\<rparr>)))"

subsection \<open>Messages from the popup, and the alarm\<close>

datatype Request =
    Start | Pause | Reset | Skip | GetState | GetTodayCount | GetStats | Ping
  | UpdateSettings jsval
  | UpdateDurations jsval
  | UnknownAction

definition getState :: "Env \<Rightarrow> World \<Rightarrow> World" where
  "getState e w =
     (let wl = loadState e w; t = timerState wl in
      if isRunning t \<and> \<not> isPaused t \<and> truthyTime (startTime t) \<and> initialDuration t \<noteq> 0 then
        (if \<not> tickInterval t then
           (let elapsedMs = now e - numOrZero (startTime t) - totalPausedTime t;
                elapsedSeconds = elapsedMs div 1000;
                t1 = t\<lparr>timeRemaining := max 0 (initialDuration t - of_int elapsedSeconds)\<rparr>
            in if timeRemaining t1 \<le> 0 then handleTimerComplete e (wl\<lparr>timerState := t1\<rparr>)
               else wl\<lparr>timerState := t1\<rparr>)
         else wl)
      else if \<not> isRunning t \<and> \<not> isPaused t then
        (let expectedDuration = getSessionDuration (settings wl) (currentSession t)
         in if timeRemaining t \<noteq> expectedDuration then
              saveState e (wl\<lparr>timerState := t\<lparr>timeRemaining := expectedDuration,
                                               initialDuration := expectedDuration\<rparr>\<rparr>)
            else wl)
      else wl)"

text \<open>
  The common part of the \<^verbatim>\<open>updateSettings\<close> and \<^verbatim>\<open>updateDurations\<close> cases, after
  \<^verbatim>\<open>mergeSettings\<close> has been called: the new settings are installed and stored, and the
  session duration is refreshed only when the timer is idle.
\<close>

definition applySettings :: "Env \<Rightarrow> jserror + Settings \<Rightarrow> World \<Rightarrow> World" where
  "applySettings e r w =
     (case r of
        Inl err \<Rightarrow> w
      | Inr s \<Rightarrow>
          let w1 = w\<lparr>settings := s\<rparr> in
          if \<not> storageOk e then w1
          else
            let w2 = w1\<lparr>storage := (storage w1)\<lparr>storedSettings := settingsObj s,
                                                 storedDurations := durationsObj (durations s)\<rparr>\<rparr>
            in if \<not> isRunning (timerState w2) \<and> \<not> isPaused (timerState w2) then
                 (let d = getSessionDuration (settings w2) (currentSession (timerState w2))
                  in saveState e (w2\<lparr>timerState := (timerState w2)\<lparr>timeRemaining := d,
                                                                   initialDuration := d\<rparr>\<rparr>))
               else w2)"

definition updateSettings :: "Env \<Rightarrow> jsval \<Rightarrow> World \<Rightarrow> World" where
  "updateSettings e requestSettings w =
     applySettings e (mergeSettings requestSettings (optChain requestSettings ''durations'')) w"

definition updateDurations :: "Env \<Rightarrow> jsval \<Rightarrow> World \<Rightarrow> World" where
  "updateDurations e requestDurations w =
     applySettings e
       (mergeSettings (JObj ((''durations'', requestDurations) # ownProps (settingsObj (settings w))))
          requestDurations) w"

fun onMessage :: "Env \<Rightarrow> Request \<Rightarrow> World \<Rightarrow> World" where
  "onMessage e Start w = startTimer e w"
| "onMessage e Pause w = pauseTimer e w"
| "onMessage e Reset w = resetTimer e w"
| "onMessage e Skip w = skipSession e w"
| "onMessage e GetState w = getState e w"
| "onMessage e GetTodayCount w = w"
| "onMessage e GetStats w = w"
| "onMessage e Ping w = w"
| "onMessage e (UpdateSettings requestSettings) w = updateSettings e requestSettings w"
| "onMessage e (UpdateDurations requestDurations) w = updateDurations e requestDurations w"
| "onMessage e UnknownAction w = w"

text \<open>The listener of \<^verbatim>\<open>chrome.alarms.onAlarm\<close> for the alarm \<^verbatim>\<open>pomodoro-end\<close>.\<close>

definition onAlarm :: "Env \<Rightarrow> World \<Rightarrow> World" where
  "onAlarm e w = handleTimerComplete e w"

text \<open>
  Everything that can happen to the worker: a message, a firing of the interval, a firing
  of the alarm, the start of the worker on installation (\<^verbatim>\<open>loadSettings\<close> then
  \<^verbatim>\<open>loadState\<close>), and the popup writing the \<^verbatim>\<open>settings\<close> key directly.
\<close>

datatype Event =
    Message Request
  | Tick
  | Alarm
  | Installed
  | PopupSavesSettings jsval

fun step :: "Env \<Rightarrow> Event \<Rightarrow> World \<Rightarrow> World" where
  "step e (Message r) w = onMessage e r w"
| "step e Tick w = tick e w"
| "step e Alarm w = onAlarm e w"
| "step e Installed w = loadState e (loadSettings e w)"
| "step e (PopupSavesSettings v) w =
     (if storageOk e then w\<lparr>storage := (storage w)\<lparr>storedSettings := v\<rparr>\<rparr> else w)"

inductive reachable :: "World \<Rightarrow> bool" where
  init: "reachable initialWorld"
| step: "reachable w \<Longrightarrow> reachable (step e ev w)"

subsection \<open>The completion handler, suspension by suspension\<close>

text \<open>
  \<^verbatim>\<open>handleTimerComplete\<close> is an async function. Above it is one step: an invocation that
  runs to its end before anything else happens. Between the calls it awaits from the
  browser (the notification, the two storage calls of \<^verbatim>\<open>updateSessionHistory\<close>, the alarm
  call, the storage call of \<^verbatim>\<open>saveState\<close>) the worker serves other events, among them a
  second invocation of the handler. An await of \<^verbatim>\<open>getSessionDuration\<close> lets no event in,
  since that function awaits nothing itself. The points at which an invocation is
  suspended, with the local values it holds there:
\<close>

datatype HandlerPoint =
    Begin
  | AwaitNotification
  | AwaitHistoryGet string "(string \<rightharpoonup> nat) option"
  | AwaitHistorySet
  | AwaitAlarm bool
  | AwaitSave
  | Finished

text \<open>
  From the second test of \<^verbatim>\<open>currentSession\<close> to the alarm call. \<^verbatim>\<open>scheduleEndAlarm\<close>
  returns without a call to the browser when its guard fails, and the handler goes on.
\<close>

definition moveToNextSession :: "Env \<Rightarrow> World \<Rightarrow> HandlerPoint \<times> World" where
  "moveToNextSession e w =
     (let t1 = timerState w;
          t2 = (if currentSession t1 = WORK then
                  (if longBreakInterval (settings w) > 0
                      \<and> int (cycleCount t1) mod longBreakInterval (settings w) = 0
                   then t1\<lparr>currentSession := LONG_BREAK,
                           timeRemaining := getSessionDuration (settings w) LONG_BREAK\<rparr>
                   else t1\<lparr>currentSession := SHORT_BREAK,
                           timeRemaining := getSessionDuration (settings w) SHORT_BREAK\<rparr>)
                else t1\<lparr>currentSession := WORK,
                        timeRemaining := getSessionDuration (settings w) WORK\<rparr>);
          t3 = t2\<lparr>isPaused := False, totalPausedTime := 0, pausedAt := None,
                  initialDuration := timeRemaining t2, startTime := None\<rparr>;
          shouldAutostart = (if currentSession t3 = WORK then autoStartWork (settings w)
                             else autoStartBreaks (settings w));
          t4 = t3\<lparr>isRunning := shouldAutostart\<rparr>
      in if shouldAutostart then
           (let w2 = w\<lparr>timerState := t4\<lparr>startTime := Some (now e)\<rparr>\<rparr>
            in if \<not> isRunning (timerState w2) \<or> isPaused (timerState w2)
                  \<or> \<not> truthyTime (startTime (timerState w2))
               then (AwaitSave, saveState e (startTick (scheduleEndAlarm e w2)))
               else (AwaitAlarm True, scheduleEndAlarm e w2))
         else (AwaitAlarm False, clearEndAlarm (w\<lparr>timerState := t4\<rparr>)))"

text \<open>After \<^verbatim>\<open>await updateSessionHistory()\<close>: the increment of \<^verbatim>\<open>cycleCount\<close>, and on.\<close>

definition countCycle :: "Env \<Rightarrow> World \<Rightarrow> HandlerPoint \<times> World" where
  "countCycle e w =
     moveToNextSession e
       (w\<lparr>timerState := (timerState w)\<lparr>cycleCount := cycleCount (timerState w) + 1\<rparr>\<rparr>)"

text \<open>
  After the notification: the first test of \<^verbatim>\<open>currentSession\<close>, and for a work session
  the call \<^verbatim>\<open>chrome.storage.local.get(['sessionHistory'])\<close>, whose answer (or failure) the
  invocation waits for. The answer is the history as it is when the call is made, and a
  write takes effect when it is called: the storage area serves its calls in their order.
\<close>

definition afterNotification :: "Env \<Rightarrow> World \<Rightarrow> HandlerPoint \<times> World" where
  "afterNotification e w =
     (if currentSession (timerState w) = WORK then
        (AwaitHistoryGet (today e)
           (if storageOk e then Some (sessionHistory (storage w)) else None), w)
      else moveToNextSession e w)"

text \<open>One invocation goes on from the point where it is suspended to its next suspension.\<close>

fun resumeHandler :: "Env \<Rightarrow> HandlerPoint \<Rightarrow> World \<Rightarrow> HandlerPoint \<times> World" where
  "resumeHandler e Begin w =
     (if desktop (notifications (settings w)) then (AwaitNotification, w)
      else afterNotification e w)"
| "resumeHandler e AwaitNotification w = afterNotification e w"
| "resumeHandler e (AwaitHistoryGet day None) w = countCycle e w"
| "resumeHandler e (AwaitHistoryGet day (Some history)) w =
     (let count = (case history day of None \<Rightarrow> 0 | Some c \<Rightarrow> c)
      in (AwaitHistorySet,
          if storageOk e
          then w\<lparr>storage := (storage w)\<lparr>sessionHistory := history(day \<mapsto> count + 1)\<rparr>\<rparr>
          else w))"
| "resumeHandler e AwaitHistorySet w = countCycle e w"
| "resumeHandler e (AwaitAlarm shouldAutostart) w =
     (AwaitSave, saveState e (if shouldAutostart then startTick w else w))"
| "resumeHandler e AwaitSave w = (Finished, w)"
| "resumeHandler e Finished w = (Finished, w)"

text \<open>One invocation on its own, for a number of resumptions.\<close>

fun runAlone :: "Env \<Rightarrow> nat \<Rightarrow> HandlerPoint \<times> World \<Rightarrow> HandlerPoint \<times> World" where
  "runAlone e 0 c = c"
| "runAlone e (Suc n) c = runAlone e n (resumeHandler e (fst c) (snd c))"


section \<open>Notions used in the statements\<close>

text \<open>\<^verbatim>\<open>Number.isInteger\<close> on a finite number.\<close>

definition isInteger :: "rat \<Rightarrow> bool" where
  "isInteger r = (of_int \<lfloor>r\<rfloor> = r)"

text \<open>What every sanitized settings value satisfies.\<close>

definition validSettings :: "Settings \<Rightarrow> bool" where
  "validSettings s =
     (60 \<le> work (durations s) \<and> work (durations s) \<le> 3600 \<and>
      60 \<le> shortBreak (durations s) \<and> shortBreak (durations s) \<le> 1800 \<and>
      60 \<le> longBreak (durations s) \<and> longBreak (durations s) \<le> 3600 \<and>
      0 \<le> longBreakInterval s \<and> longBreakInterval s \<le> 12 \<and>
      soundType (notifications s) \<in> set [''beep'', ''chime'', ''bell''])"

text \<open>
  What \<^verbatim>\<open>sanitizeNumber\<close> is described to do: keep a finite number within the bounds,
  and give the default for everything else.
\<close>

definition keptOrDefault :: "jsval \<Rightarrow> rat \<Rightarrow> rat \<Rightarrow> rat \<Rightarrow> rat" where
  "keptOrDefault v dflt lo hi =
     (case toNumber v of
        Fin n \<Rightarrow> if lo \<le> n \<and> n \<le> hi then n else dflt
      | _ \<Rightarrow> dflt)"

text \<open>
  The session that follows a completed one, as the specification words it: after work a
  long break when the interval is positive and divides the new cycle count, else a short
  break; after a break, work.
\<close>

definition nextSession :: "Settings \<Rightarrow> TimerState \<Rightarrow> SessionType" where
  "nextSession s t =
     (if currentSession t = WORK then
        (if longBreakInterval s > 0 \<and> int (cycleCount t + 1) mod longBreakInterval s = 0
         then LONG_BREAK else SHORT_BREAK)
      else WORK)"

text \<open>The timer state that a completion leaves behind.\<close>

definition completedState :: "Env \<Rightarrow> Settings \<Rightarrow> TimerState \<Rightarrow> TimerState" where
  "completedState e s t =
     (let n = nextSession s t;
          run = (if n = WORK then autoStartWork s else autoStartBreaks s)
      in \<lparr> isRunning = run, isPaused = False, currentSession = n,
           timeRemaining = getSessionDuration s n,
           cycleCount = (if currentSession t = WORK then cycleCount t + 1 else cycleCount t),
           startTime = (if run then Some (now e) else None),
           pausedAt = None, totalPausedTime = 0,
           initialDuration = getSessionDuration s n,
           tickInterval = (run \<or> tickInterval t) \<rparr>)"

text \<open>A run of completions, one after the other, each at its own instant.\<close>

fun completions :: "Env list \<Rightarrow> World \<Rightarrow> World" where
  "completions [] w = w"
| "completions (e # es) w = completions es (handleTimerComplete e w)"

text \<open>
  The elapsed-time law of the specification: the remaining seconds computed from the
  absolute timestamps.
\<close>

definition remainingBy :: "int \<Rightarrow> int \<Rightarrow> rat \<Rightarrow> int \<Rightarrow> rat" where
  "remainingBy startT totalPaused initDur nowMs =
     max 0 (initDur - of_int \<lfloor>(of_int (nowMs - startT - totalPaused) :: rat) / 1000\<rfloor>)"

text \<open>The pairs of flags that the specification allows, in memory and in storage.\<close>

definition validPair :: "TimerState \<Rightarrow> bool" where
  "validPair t = (\<not> (\<not> isRunning t \<and> isPaused t))"

definition storedValid :: "World \<Rightarrow> bool" where
  "storedValid w = (case storedTimerState (storage w) of None \<Rightarrow> True | Some t \<Rightarrow> validPair t)"

definition pairInvariant :: "World \<Rightarrow> bool" where
  "pairInvariant w = (validPair (timerState w) \<and> storedValid w)"

text \<open>Inputs used in the examples.\<close>

definition fractionalRaw :: jsval where
  "fractionalRaw = JObj [(''durations'', JObj [(''work'', JNum (Fin (181 / 2)))])]"

definition mixedRaw :: jsval where
  "mixedRaw =
     JObj [(''durations'',
            JObj [(''work'', JStr ''90''),
                  (''shortBreak'', JNum (Fin 5000)),
                  (''longBreak'', JStr ''soon'')]),
           (''longBreakInterval'', JNum (Fin (7 / 2))),
           (''autoStartBreaks'', JNum (Fin 0)),
           (''autoStartWork'', JStr ''yes''),
           (''notifications'', JObj [(''desktop'', JNum (Fin 0)), (''sound'', JBool False)]),
           (''tickingSound'', JObj [(''enabled'', JNull)])]"

definition sampleEnv :: Env where
  "sampleEnv = \<lparr> now = 1762164000000, today = ''Tue Nov 03 2026'', storageOk = True \<rparr>"

definition noLongBreakWorld :: World where
  "noLongBreakWorld =
     initialWorld\<lparr>settings := DEFAULT_SETTINGS\<lparr>longBreakInterval := 0\<rparr>,
                  timerState := initialTimerState\<lparr>cycleCount := 3\<rparr>\<rparr>"

definition autoStartWorld :: World where
  "autoStartWorld =
     initialWorld\<lparr>settings := DEFAULT_SETTINGS\<lparr>autoStartBreaks := True\<rparr>\<rparr>"

text \<open>
  A work session of 1500 seconds that has been running for 61.5 seconds at the instant of
  \<open>sampleEnv\<close>, of which 1.2 seconds were spent paused, last ticked 0.3 seconds before.
\<close>

definition runningState :: TimerState where
  "runningState =
     \<lparr> isRunning = True, isPaused = False, currentSession = WORK,
       timeRemaining = 1440, cycleCount = 0,
       startTime = Some 1762163938500, pausedAt = None, totalPausedTime = 1200,
       initialDuration = 1500, tickInterval = True \<rparr>"

definition runningWorld :: World where
  "runningWorld =
     initialWorld\<lparr>timerState := runningState,
                  storage := (storage initialWorld)\<lparr>storedTimerState := Some runningState\<rparr>\<rparr>"

definition laterEnv :: Env where
  "laterEnv = \<lparr> now = 1762164004000, today = ''Tue Nov 03 2026'', storageOk = True \<rparr>"



section \<open>Settings sanitization\<close>

lemmas obj_defs = durationsObj_def notificationsObj_def tickingSoundObj_def settingsObj_def

lemma getp_Cons: "getp (JObj ((k', v) # kvs)) k = (if k = k' then v else getp (JObj kvs) k)"
  by (simp add: getp_def)

lemma getp_Nil: "getp (JObj []) k = JUndefined"
  by (simp add: getp_def)

lemmas look = getp_Cons getp_Nil optChain_def nullish_def obj_defs nestedOrEmpty_def

lemma sanitizeNumber_keptOrDefault: "sanitizeNumber v fb lo hi = keptOrDefault v fb lo hi"
  by (auto simp: sanitizeNumber_def keptOrDefault_def split: jsnum.splits)

lemma sanitizeNumber_bounds:
  "lo \<le> fb \<Longrightarrow> fb \<le> hi \<Longrightarrow> lo \<le> sanitizeNumber v fb lo hi \<and> sanitizeNumber v fb lo hi \<le> hi"
  by (auto simp: sanitizeNumber_def split: jsnum.splits)

lemma sanitizeNumber_fixed:
  "lo \<le> r \<Longrightarrow> r \<le> hi \<Longrightarrow> sanitizeNumber (JNum (Fin r)) fb lo hi = r"
  by (simp add: sanitizeNumber_def)

lemma sanitizeSoundType_range:
  "sanitizeSoundType v \<in> set [''beep'', ''chime'', ''bell'']"
  by (auto simp: sanitizeSoundType_def DEFAULT_SETTINGS_def split: jsval.splits)

lemma sanitizeSoundType_fixed:
  "t \<in> set [''beep'', ''chime'', ''bell''] \<Longrightarrow> sanitizeSoundType (JStr t) = t"
  by (auto simp: sanitizeSoundType_def)

lemma sanitizeSettings_fields:
  assumes "sanitizeSettings x = Inr s"
  shows "work (durations s) = sanitizeNumber (optChain (getp x ''durations'') ''work'') 1500 60 3600"
    and "shortBreak (durations s) = sanitizeNumber (optChain (getp x ''durations'') ''shortBreak'') 300 60 1800"
    and "longBreak (durations s) = sanitizeNumber (optChain (getp x ''durations'') ''longBreak'') 900 60 3600"
    and "longBreakInterval s = \<lfloor>sanitizeNumber (getp x ''longBreakInterval'') 4 0 12\<rfloor>"
    and "autoStartBreaks s = truthy (getp x ''autoStartBreaks'')"
    and "autoStartWork s = truthy (getp x ''autoStartWork'')"
    and "desktop (notifications s) = (optChain (getp x ''notifications'') ''desktop'' \<noteq> JBool False)"
    and "sound (notifications s) = (optChain (getp x ''notifications'') ''sound'' \<noteq> JBool False)"
    and "soundType (notifications s) = sanitizeSoundType (optChain (getp x ''notifications'') ''soundType'')"
    and "enabled (tickingSound s) = truthy (optChain (getp x ''tickingSound'') ''enabled'')"
  using assms by (auto simp: sanitizeSettings_def DEFAULT_SETTINGS_def split: if_splits)

lemma sanitizeSettings_valid:
  assumes "sanitizeSettings x = Inr s"
  shows "validSettings s"
proof -
  have lbi: "0 \<le> \<lfloor>sanitizeNumber v 4 0 12\<rfloor> \<and> \<lfloor>sanitizeNumber v 4 0 12\<rfloor> \<le> 12" for v
    using sanitizeNumber_bounds [of 0 4 12 v] by (simp add: floor_le_iff le_floor_iff)
  show ?thesis
    unfolding validSettings_def sanitizeSettings_fields [OF assms]
    using lbi sanitizeSoundType_range
      sanitizeNumber_bounds [of 60 1500 3600] sanitizeNumber_bounds [of 60 300 1800]
      sanitizeNumber_bounds [of 60 900 3600]
    by simp
qed

lemma sanitizeSettings_fixed:
  assumes "validSettings s"
  shows "sanitizeSettings (settingsObj s) = Inr s"
proof -
  have "sanitizeNumber (JNum (Fin (of_int (longBreakInterval s)))) 4 0 12 = of_int (longBreakInterval s)"
    using assms by (intro sanitizeNumber_fixed) (simp_all add: validSettings_def)
  then show ?thesis
    using assms sanitizeSoundType_fixed [of "soundType (notifications s)"]
    by (simp add: validSettings_def sanitizeSettings_def look sanitizeNumber_fixed DEFAULT_SETTINGS_def)
qed

lemma sanitizeSettings_cong:
  assumes "nullish a = nullish b"
    and "optChain (getp a ''durations'') ''work'' = optChain (getp b ''durations'') ''work''"
    and "optChain (getp a ''durations'') ''shortBreak'' = optChain (getp b ''durations'') ''shortBreak''"
    and "optChain (getp a ''durations'') ''longBreak'' = optChain (getp b ''durations'') ''longBreak''"
    and "getp a ''longBreakInterval'' = getp b ''longBreakInterval''"
    and "getp a ''autoStartBreaks'' = getp b ''autoStartBreaks''"
    and "getp a ''autoStartWork'' = getp b ''autoStartWork''"
    and "optChain (getp a ''notifications'') ''desktop'' = optChain (getp b ''notifications'') ''desktop''"
    and "optChain (getp a ''notifications'') ''sound'' = optChain (getp b ''notifications'') ''sound''"
    and "optChain (getp a ''notifications'') ''soundType'' = optChain (getp b ''notifications'') ''soundType''"
    and "optChain (getp a ''tickingSound'') ''enabled'' = optChain (getp b ''tickingSound'') ''enabled''"
  shows "sanitizeSettings a = sanitizeSettings b"
  unfolding sanitizeSettings_def using assms by simp

lemma mergeSettings_total: "\<exists>s. mergeSettings x l = Inr s"
  by (simp add: mergeSettings_def mergedObject_def sanitizeSettings_def nullish_def Let_def)

lemma mergeSettings_valid: "mergeSettings x l = Inr s \<Longrightarrow> validSettings s"
  unfolding mergeSettings_def by (rule sanitizeSettings_valid)

lemma mergeSettings_settingsObj:
  assumes "l = JUndefined \<or> l = durationsObj (durations s)"
  shows "mergeSettings (settingsObj s) l = sanitizeSettings (settingsObj s)"
  unfolding mergeSettings_def
proof (rule sanitizeSettings_cong)
  let ?m = "mergedObject (settingsObj s) l"
  show "nullish ?m = nullish (settingsObj s)"
    by (simp add: mergedObject_def settingsObj_def nullish_def Let_def)
  have d: "getp ?m ''durations'' =
      JObj (ownProps (if truthy l then l else JObj []) @ ownProps (durationsObj (durations s))
            @ ownProps (durationsObj (durations DEFAULT_SETTINGS)))"
    by (simp add: mergedObject_def Let_def look)
  show "optChain (getp ?m ''durations'') ''work'' = optChain (getp (settingsObj s) ''durations'') ''work''"
    unfolding d using assms by (auto simp: look)
  show "optChain (getp ?m ''durations'') ''shortBreak'' = optChain (getp (settingsObj s) ''durations'') ''shortBreak''"
    unfolding d using assms by (auto simp: look)
  show "optChain (getp ?m ''durations'') ''longBreak'' = optChain (getp (settingsObj s) ''durations'') ''longBreak''"
    unfolding d using assms by (auto simp: look)
  have n: "getp ?m ''notifications'' =
      JObj (ownProps (notificationsObj (notifications s))
            @ ownProps (notificationsObj (notifications DEFAULT_SETTINGS)))"
    by (simp add: mergedObject_def Let_def look)
  show "optChain (getp ?m ''notifications'') ''desktop'' = optChain (getp (settingsObj s) ''notifications'') ''desktop''"
    unfolding n by (simp add: look)
  show "optChain (getp ?m ''notifications'') ''sound'' = optChain (getp (settingsObj s) ''notifications'') ''sound''"
    unfolding n by (simp add: look)
  show "optChain (getp ?m ''notifications'') ''soundType'' = optChain (getp (settingsObj s) ''notifications'') ''soundType''"
    unfolding n by (simp add: look)
  have t: "getp ?m ''tickingSound'' =
      JObj (ownProps (tickingSoundObj (tickingSound s))
            @ ownProps (tickingSoundObj (tickingSound DEFAULT_SETTINGS)))"
    by (simp add: mergedObject_def Let_def look)
  show "optChain (getp ?m ''tickingSound'') ''enabled'' = optChain (getp (settingsObj s) ''tickingSound'') ''enabled''"
    unfolding t by (simp add: look)
  show "getp ?m ''longBreakInterval'' = getp (settingsObj s) ''longBreakInterval''"
    by (simp add: mergedObject_def Let_def look)
  show "getp ?m ''autoStartBreaks'' = getp (settingsObj s) ''autoStartBreaks''"
    by (simp add: mergedObject_def Let_def look)
  show "getp ?m ''autoStartWork'' = getp (settingsObj s) ''autoStartWork''"
    by (simp add: mergedObject_def Let_def look)
qed

lemma mergeSettings_fixed:
  assumes "validSettings s" and "l = JUndefined \<or> l = durationsObj (durations s)"
  shows "mergeSettings (settingsObj s) l = Inr s"
  using mergeSettings_settingsObj [OF assms(2)] sanitizeSettings_fixed [OF assms(1)] by simp

lemmas parse_defs = StringToNumber_def trimString_def isStrWhiteSpace_def parseNonDecimal_def
  parseStrDecimal_def parseUnsignedDecimal_def isDecimalDigit_def digitValue_def parseDigits_def
  parseExponent_def roundMV_def pow10_def Let_def

lemma StringToNumber_examples:
  "StringToNumber ''90'' = Fin 90" "StringToNumber ''soon'' = NaN"
  by (simp_all add: parse_defs)

lemma mixedRaw_sanitized:
  "sanitizeSettings mixedRaw =
     Inr \<lparr> durations = \<lparr> work = 90, shortBreak = 300, longBreak = 900 \<rparr>,
           longBreakInterval = 3, autoStartBreaks = False, autoStartWork = True,
           notifications = \<lparr> desktop = True, sound = False, soundType = ''beep'' \<rparr>,
           tickingSound = \<lparr> enabled = False \<rparr> \<rparr>"
proof -
  have "\<lfloor>7 / 2 :: rat\<rfloor> = 3"
    by (simp add: floor_eq_iff)
  then show ?thesis
    by (simp add: mixedRaw_def sanitizeSettings_def look sanitizeNumber_def
        sanitizeSoundType_def DEFAULT_SETTINGS_def StringToNumber_examples)
qed

text \<open>
  C4, as the specification states it: for every raw input the sanitized durations are
  positive integer second counts within the bounds. The sanitizer has no integer test for
  durations: the input \<^verbatim>\<open>{durations: {work: 90.5}}\<close> is sanitized to a work duration of
  90.5 seconds.
\<close>

theorem sanitized_duration_not_integer:
  "sanitizeSettings fractionalRaw =
     Inr \<lparr> durations = \<lparr> work = 181 / 2, shortBreak = 300, longBreak = 900 \<rparr>,
           longBreakInterval = 4, autoStartBreaks = False, autoStartWork = False,
           notifications = \<lparr> desktop = True, sound = True, soundType = ''beep'' \<rparr>,
           tickingSound = \<lparr> enabled = False \<rparr> \<rparr>
   \<and> \<not> isInteger (181 / 2)"
proof -
  have "\<lfloor>181 / 2 :: rat\<rfloor> = 90"
    by (simp add: floor_eq_iff)
  then have "\<not> isInteger (181 / 2)"
    unfolding isInteger_def by simp
  moreover have "sanitizeSettings fractionalRaw =
     Inr \<lparr> durations = \<lparr> work = 181 / 2, shortBreak = 300, longBreak = 900 \<rparr>,
           longBreakInterval = 4, autoStartBreaks = False, autoStartWork = False,
           notifications = \<lparr> desktop = True, sound = True, soundType = ''beep'' \<rparr>,
           tickingSound = \<lparr> enabled = False \<rparr> \<rparr>"
    by (simp add: fractionalRaw_def sanitizeSettings_def look sanitizeNumber_def
        sanitizeSoundType_def DEFAULT_SETTINGS_def)
  ultimately show ?thesis by simp
qed

text \<open>
  C4, amended: for every raw input that \<^verbatim>\<open>sanitizeSettings\<close> accepts, the sanitized
  durations are finite numbers, not necessarily whole, within the bounds (work and
  longBreak in [60, 3600], shortBreak in [60, 1800]); a duration whose \<^verbatim>\<open>Number(...)\<close>
  value is finite and within the bounds is kept as it is, and every other one is replaced
  by the default of its field (1500, 300, 900), never by the nearest bound.
\<close>

theorem sanitized_durations_kept_or_default:
  assumes "sanitizeSettings raw = Inr s"
  shows "60 \<le> work (durations s) \<and> work (durations s) \<le> 3600
       \<and> 60 \<le> shortBreak (durations s) \<and> shortBreak (durations s) \<le> 1800
       \<and> 60 \<le> longBreak (durations s) \<and> longBreak (durations s) \<le> 3600
       \<and> work (durations s) = keptOrDefault (optChain (getp raw ''durations'') ''work'') 1500 60 3600
       \<and> shortBreak (durations s) = keptOrDefault (optChain (getp raw ''durations'') ''shortBreak'') 300 60 1800
       \<and> longBreak (durations s) = keptOrDefault (optChain (getp raw ''durations'') ''longBreak'') 900 60 3600"
  using sanitizeSettings_valid [OF assms] sanitizeSettings_fields(1-3) [OF assms]
  by (simp add: validSettings_def sanitizeNumber_keptOrDefault)

theorem sanitized_durations_kept_or_default_witness:
  "sanitizeSettings mixedRaw =
     Inr \<lparr> durations = \<lparr> work = 90, shortBreak = 300, longBreak = 900 \<rparr>,
           longBreakInterval = 3, autoStartBreaks = False, autoStartWork = True,
           notifications = \<lparr> desktop = True, sound = False, soundType = ''beep'' \<rparr>,
           tickingSound = \<lparr> enabled = False \<rparr> \<rparr>
   \<and> keptOrDefault (optChain (getp mixedRaw ''durations'') ''work'') 1500 60 3600 = 90
   \<and> keptOrDefault (optChain (getp mixedRaw ''durations'') ''shortBreak'') 300 60 1800 = 300
   \<and> keptOrDefault (optChain (getp mixedRaw ''durations'') ''longBreak'') 900 60 3600 = 900"
proof -
  note h = mixedRaw_sanitized
  show ?thesis
    using h sanitized_durations_kept_or_default [OF h] by simp
qed

text \<open>
  C5: sanitizing is idempotent. \<^verbatim>\<open>mergeSettings\<close> returns a settings value for every
  input (undefined, empty and malformed ones included), and sanitizing that value again,
  through \<^verbatim>\<open>sanitizeSettings\<close> or through \<^verbatim>\<open>mergeSettings\<close> with the legacy durations
  its callers pass, gives the same value; the same holds for the result of
  \<^verbatim>\<open>sanitizeSettings\<close> wherever it returns one.
\<close>

theorem sanitize_idempotent:
  "(\<exists>s. mergeSettings x l = Inr s
        \<and> sanitizeSettings (settingsObj s) = Inr s
        \<and> mergeSettings (settingsObj s) JUndefined = Inr s
        \<and> mergeSettings (settingsObj s) (durationsObj (durations s)) = Inr s)
   \<and> (\<forall>s. sanitizeSettings x = Inr s \<longrightarrow>
          sanitizeSettings (settingsObj s) = Inr s
        \<and> mergeSettings (settingsObj s) JUndefined = Inr s
        \<and> mergeSettings (settingsObj s) (durationsObj (durations s)) = Inr s)"
proof -
  have fixed: "sanitizeSettings (settingsObj s) = Inr s
        \<and> mergeSettings (settingsObj s) JUndefined = Inr s
        \<and> mergeSettings (settingsObj s) (durationsObj (durations s)) = Inr s"
    if "validSettings s" for s
    using that by (simp add: sanitizeSettings_fixed mergeSettings_fixed)
  obtain s where s: "mergeSettings x l = Inr s"
    using mergeSettings_total by blast
  from s fixed [OF mergeSettings_valid [OF s]] have "\<exists>s. mergeSettings x l = Inr s
        \<and> sanitizeSettings (settingsObj s) = Inr s
        \<and> mergeSettings (settingsObj s) JUndefined = Inr s
        \<and> mergeSettings (settingsObj s) (durationsObj (durations s)) = Inr s"
    by blast
  moreover have "\<forall>s. sanitizeSettings x = Inr s \<longrightarrow>
          sanitizeSettings (settingsObj s) = Inr s
        \<and> mergeSettings (settingsObj s) JUndefined = Inr s
        \<and> mergeSettings (settingsObj s) (durationsObj (durations s)) = Inr s"
    using fixed sanitizeSettings_valid by blast
  ultimately show ?thesis by blast
qed

theorem sanitize_idempotent_witness:
  "sanitizeSettings mixedRaw =
     Inr \<lparr> durations = \<lparr> work = 90, shortBreak = 300, longBreak = 900 \<rparr>,
           longBreakInterval = 3, autoStartBreaks = False, autoStartWork = True,
           notifications = \<lparr> desktop = True, sound = False, soundType = ''beep'' \<rparr>,
           tickingSound = \<lparr> enabled = False \<rparr> \<rparr>
   \<and> sanitizeSettings (settingsObj
       \<lparr> durations = \<lparr> work = 90, shortBreak = 300, longBreak = 900 \<rparr>,
         longBreakInterval = 3, autoStartBreaks = False, autoStartWork = True,
         notifications = \<lparr> desktop = True, sound = False, soundType = ''beep'' \<rparr>,
         tickingSound = \<lparr> enabled = False \<rparr> \<rparr>) =
     Inr \<lparr> durations = \<lparr> work = 90, shortBreak = 300, longBreak = 900 \<rparr>,
           longBreakInterval = 3, autoStartBreaks = False, autoStartWork = True,
           notifications = \<lparr> desktop = True, sound = False, soundType = ''beep'' \<rparr>,
           tickingSound = \<lparr> enabled = False \<rparr> \<rparr>"
proof -
  note h = mixedRaw_sanitized
  show ?thesis
    using h sanitize_idempotent [of mixedRaw JUndefined] by simp
qed

text \<open>
  C10: the notification flags and the other flags are sanitized differently.
  \<^verbatim>\<open>notifications.desktop\<close> and \<^verbatim>\<open>notifications.sound\<close> become false only when the
  value read is the boolean false; \<^verbatim>\<open>autoStartBreaks\<close>, \<^verbatim>\<open>autoStartWork\<close> and
  \<^verbatim>\<open>tickingSound.enabled\<close> follow the truthiness of the value read. A missing field reads
  as undefined; 0, null, undefined and the empty string are all different from false and
  all falsy, so they turn the former on and the latter off.
\<close>

theorem notification_flags_only_literal_false:
  assumes "sanitizeSettings raw = Inr s"
  shows "(desktop (notifications s) \<longleftrightarrow> optChain (getp raw ''notifications'') ''desktop'' \<noteq> JBool False)
       \<and> (sound (notifications s) \<longleftrightarrow> optChain (getp raw ''notifications'') ''sound'' \<noteq> JBool False)
       \<and> (autoStartBreaks s \<longleftrightarrow> truthy (getp raw ''autoStartBreaks''))
       \<and> (autoStartWork s \<longleftrightarrow> truthy (getp raw ''autoStartWork''))
       \<and> (enabled (tickingSound s) \<longleftrightarrow> truthy (optChain (getp raw ''tickingSound'') ''enabled''))
       \<and> (\<forall>v \<in> set [JNum (Fin 0), JNull, JUndefined, JStr ''''].
             v \<noteq> JBool False \<and> \<not> truthy v)
       \<and> getp (JObj []) ''desktop'' = JUndefined
       \<and> optChain JUndefined ''desktop'' = JUndefined"
  using sanitizeSettings_fields(5-8,10) [OF assms]
  by (simp add: look)

theorem notification_flags_only_literal_false_witness:
  "sanitizeSettings mixedRaw =
     Inr \<lparr> durations = \<lparr> work = 90, shortBreak = 300, longBreak = 900 \<rparr>,
           longBreakInterval = 3, autoStartBreaks = False, autoStartWork = True,
           notifications = \<lparr> desktop = True, sound = False, soundType = ''beep'' \<rparr>,
           tickingSound = \<lparr> enabled = False \<rparr> \<rparr>
   \<and> optChain (getp mixedRaw ''notifications'') ''desktop'' = JNum (Fin 0)
   \<and> optChain (getp mixedRaw ''notifications'') ''sound'' = JBool False
   \<and> getp mixedRaw ''autoStartBreaks'' = JNum (Fin 0)
   \<and> getp mixedRaw ''autoStartWork'' = JStr ''yes''
   \<and> optChain (getp mixedRaw ''tickingSound'') ''enabled'' = JNull"
proof -
  note h = mixedRaw_sanitized
  show ?thesis
    using h notification_flags_only_literal_false [OF h]
    by (simp add: mixedRaw_def look)
qed

section \<open>The completion handler\<close>

lemma saveState_proj [simp]:
  "settings (saveState e w) = settings w"
  "timerState (saveState e w) = timerState w"
  "endAlarm (saveState e w) = endAlarm w"
  "storedSettings (storage (saveState e w)) = storedSettings (storage w)"
  "storedDurations (storage (saveState e w)) = storedDurations (storage w)"
  "sessionHistory (storage (saveState e w)) = sessionHistory (storage w)"
  "storedTimerState (storage (saveState e w)) =
     (if storageOk e then Some (timerState w) else storedTimerState (storage w))"
  by (simp_all add: saveState_def)

lemma scheduleEndAlarm_proj [simp]:
  "settings (scheduleEndAlarm e w) = settings w"
  "timerState (scheduleEndAlarm e w) = timerState w"
  "storage (scheduleEndAlarm e w) = storage w"
  "endAlarm (scheduleEndAlarm e w) =
     (if isRunning (timerState w) \<and> \<not> isPaused (timerState w) \<and> truthyTime (startTime (timerState w))
      then Some (of_int (now e) + max (timeRemaining (timerState w)) 1 * 1000)
      else endAlarm w)"
  by (simp_all add: scheduleEndAlarm_def)

lemma clearEndAlarm_proj [simp]:
  "settings (clearEndAlarm w) = settings w"
  "timerState (clearEndAlarm w) = timerState w"
  "storage (clearEndAlarm w) = storage w"
  "endAlarm (clearEndAlarm w) = None"
  by (simp_all add: clearEndAlarm_def)

lemma startTick_proj [simp]:
  "settings (startTick w) = settings w"
  "timerState (startTick w) = (timerState w)\<lparr>tickInterval := True\<rparr>"
  "storage (startTick w) = storage w"
  "endAlarm (startTick w) = endAlarm w"
  by (simp_all add: startTick_def)

lemma updateSessionHistory_proj [simp]:
  "settings (updateSessionHistory e w) = settings w"
  "timerState (updateSessionHistory e w) = timerState w"
  "endAlarm (updateSessionHistory e w) = endAlarm w"
  "storedSettings (storage (updateSessionHistory e w)) = storedSettings (storage w)"
  "storedDurations (storage (updateSessionHistory e w)) = storedDurations (storage w)"
  "storedTimerState (storage (updateSessionHistory e w)) = storedTimerState (storage w)"
  "sessionHistory (storage (updateSessionHistory e w)) =
     (if storageOk e
      then (sessionHistory (storage w))
             (today e \<mapsto> (case sessionHistory (storage w) (today e) of None \<Rightarrow> 0 | Some c \<Rightarrow> c) + 1)
      else sessionHistory (storage w))"
  by (simp_all add: updateSessionHistory_def Let_def)

lemma handleTimerComplete_settings [simp]: "settings (handleTimerComplete e w) = settings w"
  by (simp add: handleTimerComplete_def Let_def)

lemma handleTimerComplete_timerState:
  "timerState (handleTimerComplete e w) = completedState e (settings w) (timerState w)"
proof (cases "currentSession (timerState w) = WORK")
  case True
  then show ?thesis
    by (cases "longBreakInterval (settings w) > 0";
        cases "(1 + int (cycleCount (timerState w))) mod longBreakInterval (settings w) = 0";
        cases "autoStartBreaks (settings w)")
       (simp_all add: handleTimerComplete_def completedState_def nextSession_def Let_def)
next
  case False
  then show ?thesis
    by (cases "autoStartWork (settings w)")
       (simp_all add: handleTimerComplete_def completedState_def nextSession_def Let_def)
qed


lemma handleTimerComplete_storage:
  "storedSettings (storage (handleTimerComplete e w)) = storedSettings (storage w)"
  "storedDurations (storage (handleTimerComplete e w)) = storedDurations (storage w)"
  "storedTimerState (storage (handleTimerComplete e w)) =
     (if storageOk e then Some (timerState (handleTimerComplete e w))
      else storedTimerState (storage w))"
  "sessionHistory (storage (handleTimerComplete e w)) =
     (if currentSession (timerState w) = WORK \<and> storageOk e
      then (sessionHistory (storage w))
             (today e \<mapsto> (case sessionHistory (storage w) (today e) of None \<Rightarrow> 0 | Some c \<Rightarrow> c) + 1)
      else sessionHistory (storage w))"
  by (simp_all add: handleTimerComplete_def Let_def)

lemma handleTimerComplete_endAlarm:
  "endAlarm (handleTimerComplete e w) =
     (if isRunning (timerState (handleTimerComplete e w)) then
        (if now e = 0 then endAlarm w
         else Some (of_int (now e) + max (timeRemaining (timerState (handleTimerComplete e w))) 1 * 1000))
      else None)"
  by (simp add: handleTimerComplete_def Let_def)

lemma nextSession_changes: "nextSession s t \<noteq> currentSession t"
  by (simp add: nextSession_def)

lemma completedState_proj:
  "currentSession (completedState e s t) = nextSession s t"
  "cycleCount (completedState e s t) = (if currentSession t = WORK then cycleCount t + 1 else cycleCount t)"
  "isPaused (completedState e s t) = False"
  "isRunning (completedState e s t) = (if nextSession s t = WORK then autoStartWork s else autoStartBreaks s)"
  "timeRemaining (completedState e s t) = getSessionDuration s (nextSession s t)"
  "initialDuration (completedState e s t) = getSessionDuration s (nextSession s t)"
  "startTime (completedState e s t) = (if isRunning (completedState e s t) then Some (now e) else None)"
  "pausedAt (completedState e s t) = None"
  "totalPausedTime (completedState e s t) = 0"
  by (simp_all add: completedState_def Let_def)

lemma completions_snoc: "completions (es @ [e]) w = handleTimerComplete e (completions es w)"
  by (induction es arbitrary: w) simp_all

lemma completions_settings [simp]: "settings (completions es w) = settings w"
  by (induction es arbitrary: w) simp_all

lemma completions_cycle:
  assumes "currentSession (timerState w) = WORK"
  shows "(currentSession (timerState (completions es w)) = WORK \<longleftrightarrow> even (length es))
       \<and> cycleCount (timerState (completions es w)) = cycleCount (timerState w) + (length es + 1) div 2
       \<and> (odd (length es) \<longrightarrow>
            currentSession (timerState (completions es w)) =
              (if longBreakInterval (settings w) > 0
                  \<and> int (cycleCount (timerState (completions es w))) mod longBreakInterval (settings w) = 0
               then LONG_BREAK else SHORT_BREAK))"
proof (induction es rule: rev_induct)
  case Nil
  show ?case using assms by simp
next
  case (snoc e es)
  let ?v = "completions es w"
  show ?case
  proof (cases "even (length es)")
    case True
    with snoc have cur: "currentSession (timerState ?v) = WORK"
      and cnt: "cycleCount (timerState ?v) = cycleCount (timerState w) + (length es + 1) div 2"
      by simp_all
    from True have half: "(length es + 2) div 2 = (length es + 1) div 2 + 1"
      by presburger
    show ?thesis
      using True cur cnt half
      by (simp add: completions_snoc handleTimerComplete_timerState completedState_proj
          nextSession_def)
  next
    case False
    with snoc have cur: "currentSession (timerState ?v) \<noteq> WORK"
      and cnt: "cycleCount (timerState ?v) = cycleCount (timerState w) + (length es + 1) div 2"
      by simp_all
    from False have half: "(length es + 2) div 2 = (length es + 1) div 2"
      by presburger
    show ?thesis
      using False cur cnt half
      by (simp add: completions_snoc handleTimerComplete_timerState completedState_proj
          nextSession_def)
  qed
qed

lemma sample_completions:
  "currentSession (timerState (completions [sampleEnv] initialWorld)) = SHORT_BREAK"
  "currentSession (timerState (completions [sampleEnv, sampleEnv] initialWorld)) = WORK"
  by (simp_all add: handleTimerComplete_timerState completedState_proj nextSession_def
      initialWorld_def initialTimerState_def DEFAULT_SETTINGS_def)

text \<open>
  C2, as the specification states it: once the completion handler has run, a second
  invocation leaves the timer state unchanged. The handler has no guard: from the initial
  state the first invocation moves to the short break with 300 seconds and cycle count 1,
  and the second invocation moves on to work with 1500 seconds.
\<close>

theorem second_completion_not_noop:
  "currentSession (timerState (handleTimerComplete sampleEnv initialWorld)) = SHORT_BREAK
   \<and> timeRemaining (timerState (handleTimerComplete sampleEnv initialWorld)) = 300
   \<and> currentSession (timerState (handleTimerComplete sampleEnv
        (handleTimerComplete sampleEnv initialWorld))) = WORK
   \<and> timeRemaining (timerState (handleTimerComplete sampleEnv
        (handleTimerComplete sampleEnv initialWorld))) = 1500
   \<and> timerState (handleTimerComplete sampleEnv (handleTimerComplete sampleEnv initialWorld))
       \<noteq> timerState (handleTimerComplete sampleEnv initialWorld)"
proof -
  have 1: "currentSession (timerState (handleTimerComplete sampleEnv initialWorld)) = SHORT_BREAK"
    and 2: "timeRemaining (timerState (handleTimerComplete sampleEnv initialWorld)) = 300"
    by (simp_all add: handleTimerComplete_timerState completedState_proj nextSession_def
        initialWorld_def initialTimerState_def DEFAULT_SETTINGS_def)
  have 3: "currentSession (timerState (handleTimerComplete sampleEnv
        (handleTimerComplete sampleEnv initialWorld))) = WORK"
    and 4: "timeRemaining (timerState (handleTimerComplete sampleEnv
        (handleTimerComplete sampleEnv initialWorld))) = 1500"
    by (simp_all add: handleTimerComplete_timerState completedState_proj nextSession_def
        initialWorld_def initialTimerState_def DEFAULT_SETTINGS_def)
  from 1 3 have "timerState (handleTimerComplete sampleEnv (handleTimerComplete sampleEnv initialWorld))
       \<noteq> timerState (handleTimerComplete sampleEnv initialWorld)"
    by auto
  with 1 2 3 4 show ?thesis by simp
qed

text \<open>
  C2, amended: completion triggering is not idempotent. The handler has no guard and every
  invocation performs a full transition: a second invocation right after the first always
  changes \<^verbatim>\<open>currentSession\<close> again (a break goes back to work, work goes on to a break)
  and installs the duration of that next session. What the handler does about the second
  trigger is to cancel the deadline alarm when the next session does not start by itself,
  and to replace it by the deadline of the next session when it does.
\<close>

theorem second_completion_transitions_again:
  "currentSession (timerState (handleTimerComplete e2 (handleTimerComplete e1 w)))
     \<noteq> currentSession (timerState (handleTimerComplete e1 w))
   \<and> timerState (handleTimerComplete e2 (handleTimerComplete e1 w))
       = completedState e2 (settings w) (timerState (handleTimerComplete e1 w))
   \<and> (\<not> isRunning (timerState (handleTimerComplete e1 w)) \<longrightarrow>
         endAlarm (handleTimerComplete e1 w) = None)
   \<and> (isRunning (timerState (handleTimerComplete e1 w)) \<and> now e1 \<noteq> 0 \<longrightarrow>
         endAlarm (handleTimerComplete e1 w)
           = Some (of_int (now e1) + max (timeRemaining (timerState (handleTimerComplete e1 w))) 1 * 1000))"
proof -
  have "timerState (handleTimerComplete e2 (handleTimerComplete e1 w))
       = completedState e2 (settings w) (timerState (handleTimerComplete e1 w))"
    by (simp add: handleTimerComplete_timerState)
  moreover from this
  have "currentSession (timerState (handleTimerComplete e2 (handleTimerComplete e1 w)))
     \<noteq> currentSession (timerState (handleTimerComplete e1 w))"
    by (simp add: completedState_proj nextSession_changes)
  ultimately show ?thesis
    by (simp add: handleTimerComplete_endAlarm)
qed

theorem second_completion_transitions_again_witness:
  "\<not> isRunning (timerState (handleTimerComplete sampleEnv initialWorld))
   \<and> endAlarm (handleTimerComplete sampleEnv initialWorld) = None
   \<and> isRunning (timerState (handleTimerComplete sampleEnv autoStartWorld))
   \<and> now sampleEnv \<noteq> 0
   \<and> endAlarm (handleTimerComplete sampleEnv autoStartWorld) = Some 1762164300000
   \<and> currentSession (timerState (handleTimerComplete sampleEnv
        (handleTimerComplete sampleEnv initialWorld))) \<noteq> SHORT_BREAK"
proof -
  have a: "\<not> isRunning (timerState (handleTimerComplete sampleEnv initialWorld))"
    and b: "currentSession (timerState (handleTimerComplete sampleEnv initialWorld)) = SHORT_BREAK"
    by (simp_all add: handleTimerComplete_timerState completedState_proj nextSession_def
        initialWorld_def initialTimerState_def DEFAULT_SETTINGS_def)
  have c: "isRunning (timerState (handleTimerComplete sampleEnv autoStartWorld))"
    and d: "timeRemaining (timerState (handleTimerComplete sampleEnv autoStartWorld)) = 300"
    by (simp_all add: handleTimerComplete_timerState completedState_proj nextSession_def
        autoStartWorld_def initialWorld_def initialTimerState_def DEFAULT_SETTINGS_def)
  have n: "now sampleEnv = 1762164000000"
    by (simp add: sampleEnv_def)
  note i = second_completion_transitions_again [of sampleEnv sampleEnv initialWorld]
  note j = second_completion_transitions_again [of sampleEnv sampleEnv autoStartWorld]
  show ?thesis
    using a b c d n i [THEN conjunct1] i [THEN conjunct2, THEN conjunct2, THEN conjunct1]
      j [THEN conjunct2, THEN conjunct2, THEN conjunct2]
    by simp
qed

lemma runAlone_Finished [simp]: "runAlone e n (Finished, w) = (Finished, w)"
  by (induction n) simp_all






text \<open>
  C6: cycle substitution. Starting from a work session with cycle count 0 and a long-break
  interval of 4, let completions follow one another; the k-th work session is completed by
  the completion number 2k - 1. Work sessions 1, 2 and 3 lead to the short break and the
  4th to the long break (and so on, every 4th). Completing a break always leads to work.
  With a long-break interval of 0 no completion leads to the long break.
\<close>

theorem cycle_substitution:
  "(currentSession (timerState w) = WORK \<and> cycleCount (timerState w) = 0
      \<and> longBreakInterval (settings w) = 4 \<and> length es = 2 * k + 1 \<longrightarrow>
        currentSession (timerState (completions es w))
          = (if (k + 1) mod 4 = 0 then LONG_BREAK else SHORT_BREAK)
        \<and> currentSession (timerState (completions (es @ [e]) w)) = WORK)
   \<and> (currentSession (timerState w) \<noteq> WORK \<longrightarrow>
        currentSession (timerState (handleTimerComplete e w)) = WORK)
   \<and> (longBreakInterval (settings w) = 0 \<longrightarrow>
        currentSession (timerState (handleTimerComplete e w)) \<noteq> LONG_BREAK)"
proof -
  have "currentSession (timerState (completions es w))
          = (if (k + 1) mod 4 = 0 then LONG_BREAK else SHORT_BREAK)
        \<and> currentSession (timerState (completions (es @ [e]) w)) = WORK"
    if w: "currentSession (timerState w) = WORK" and c: "cycleCount (timerState w) = 0"
      and i: "longBreakInterval (settings w) = 4" and l: "length es = 2 * k + 1"
  proof -
    from l have odd: "odd (length es)" "(length es + 1) div 2 = k + 1"
      by simp_all
    have m: "int (k + 1) mod 4 = 0 \<longleftrightarrow> (k + 1) mod 4 = 0"
      by presburger
    have "currentSession (timerState (completions es w))
          = (if (k + 1) mod 4 = 0 then LONG_BREAK else SHORT_BREAK)"
      using completions_cycle [OF w, of es] odd c i m by simp
    moreover have "currentSession (timerState (completions (es @ [e]) w)) = WORK"
      using completions_cycle [OF w, of "es @ [e]"] odd by simp
    ultimately show ?thesis by simp
  qed
  then show ?thesis
    by (simp add: handleTimerComplete_timerState completedState_proj nextSession_def)
qed

theorem cycle_substitution_witness:
  "currentSession (timerState initialWorld) = WORK \<and> cycleCount (timerState initialWorld) = 0
   \<and> longBreakInterval (settings initialWorld) = 4
   \<and> currentSession (timerState (completions [sampleEnv] initialWorld)) = SHORT_BREAK
   \<and> currentSession (timerState (completions [sampleEnv, sampleEnv, sampleEnv] initialWorld)) = SHORT_BREAK
   \<and> currentSession (timerState (completions
        [sampleEnv, sampleEnv, sampleEnv, sampleEnv, sampleEnv] initialWorld)) = SHORT_BREAK
   \<and> currentSession (timerState (completions
        [sampleEnv, sampleEnv, sampleEnv, sampleEnv, sampleEnv, sampleEnv, sampleEnv] initialWorld))
       = LONG_BREAK
   \<and> currentSession (timerState (handleTimerComplete sampleEnv initialWorld)) \<noteq> WORK
   \<and> currentSession (timerState (handleTimerComplete sampleEnv
        (handleTimerComplete sampleEnv initialWorld))) = WORK
   \<and> longBreakInterval (settings noLongBreakWorld) = 0
   \<and> currentSession (timerState (handleTimerComplete sampleEnv noLongBreakWorld)) \<noteq> LONG_BREAK"
proof -
  have h: "currentSession (timerState initialWorld) = WORK" "cycleCount (timerState initialWorld) = 0"
    "longBreakInterval (settings initialWorld) = 4"
    by (simp_all add: initialWorld_def initialTimerState_def DEFAULT_SETTINGS_def)
  have z: "longBreakInterval (settings noLongBreakWorld) = 0"
    by (simp add: noLongBreakWorld_def)
  have b: "currentSession (timerState (handleTimerComplete sampleEnv initialWorld)) \<noteq> WORK"
    using sample_completions(1) by simp
  show ?thesis
    using h z b
      cycle_substitution [of initialWorld "[sampleEnv]" 0 sampleEnv]
      cycle_substitution [of initialWorld "[sampleEnv, sampleEnv, sampleEnv]" 1 sampleEnv]
      cycle_substitution [of initialWorld "[sampleEnv, sampleEnv, sampleEnv, sampleEnv, sampleEnv]" 2 sampleEnv]
      cycle_substitution [of initialWorld
        "[sampleEnv, sampleEnv, sampleEnv, sampleEnv, sampleEnv, sampleEnv, sampleEnv]" 3 sampleEnv]
      cycle_substitution [of "handleTimerComplete sampleEnv initialWorld" "[]" 0 sampleEnv]
      cycle_substitution [of noLongBreakWorld "[]" 0 sampleEnv]
    by simp
qed

section \<open>Start, pause, tick and reload\<close>

lemma remainingBy_div:
  "remainingBy s p d n = max 0 (d - of_int ((n - s - p) div 1000))"
proof -
  have "\<lfloor>(of_int (n - s - p) :: rat) / 1000\<rfloor> = (n - s - p) div 1000"
    using floor_divide_of_int_eq [of "n - s - p" 1000, where ?'a = rat] by simp
  then show ?thesis by (simp add: remainingBy_def)
qed

lemma loadSettings_proj [simp]:
  "timerState (loadSettings e w) = timerState w"
  "endAlarm (loadSettings e w) = endAlarm w"
  "storedTimerState (storage (loadSettings e w)) = storedTimerState (storage w)"
  "sessionHistory (storage (loadSettings e w)) = sessionHistory (storage w)"
  by (simp_all add: loadSettings_def split: sum.splits)

lemma pauseTimer_timerState:
  assumes "isRunning (timerState w)" "\<not> isPaused (timerState w)"
  shows "timerState (pauseTimer e w) =
     (timerState w)
       \<lparr>timeRemaining :=
          (if truthyTime (startTime (timerState w)) \<and> initialDuration (timerState w) \<noteq> 0
           then max 0 (initialDuration (timerState w)
                  - of_int ((now e - numOrZero (startTime (timerState w))
                             - totalPausedTime (timerState w)) div 1000))
           else timeRemaining (timerState w)),
        isPaused := True, pausedAt := Some (now e), tickInterval := False\<rparr>"
  using assms
  by (cases "truthyTime (startTime (timerState w))"; cases "initialDuration (timerState w) = 0";
      cases "tickInterval (timerState w)")
     (simp_all add: pauseTimer_def Let_def)


lemma tick_running:
  assumes "isRunning (timerState w)" "\<not> isPaused (timerState w)"
  shows "tick e w =
     (let r = max 0 (initialDuration (timerState w)
                  - of_int ((now e - numOrZero (startTime (timerState w))
                             - totalPausedTime (timerState w)) div 1000))
      in if timeRemaining (timerState w) = r then w
         else if r \<le> 0 then
           handleTimerComplete e (w\<lparr>timerState := (timerState w)\<lparr>timeRemaining := r, tickInterval := False\<rparr>\<rparr>)
         else saveState e (w\<lparr>timerState := (timerState w)\<lparr>timeRemaining := r\<rparr>\<rparr>))"
  using assms by (simp add: tick_def Let_def)

lemma loadState_running:
  assumes "storageOk e" "storedTimerState (storage w) = Some t"
    and "isRunning t" "\<not> isPaused t" "truthyTime (startTime t)"
  shows "loadState e w =
     (let r = max 0 (initialDuration t
                  - of_int ((now e - numOrZero (startTime t) - totalPausedTime t) div 1000))
      in if r \<le> 0 then handleTimerComplete e ((loadSettings e w)\<lparr>timerState := t\<lparr>timeRemaining := r\<rparr>\<rparr>)
         else (loadSettings e w)\<lparr>timerState := t\<lparr>timeRemaining := r\<rparr>\<rparr>)"
  using assms by (simp add: loadState_def Let_def)

lemma tick_positive:
  assumes "isRunning (timerState w)" "\<not> isPaused (timerState w)"
    and "0 < remainingBy (numOrZero (startTime (timerState w))) (totalPausedTime (timerState w))
               (initialDuration (timerState w)) (now e)"
  shows "timerState (tick e w) =
     (timerState w)\<lparr>timeRemaining :=
        remainingBy (numOrZero (startTime (timerState w))) (totalPausedTime (timerState w))
          (initialDuration (timerState w)) (now e)\<rparr>"
proof (cases "timeRemaining (timerState w) =
     remainingBy (numOrZero (startTime (timerState w))) (totalPausedTime (timerState w))
          (initialDuration (timerState w)) (now e)")
  case True
  have "tick e w = w"
    using True by (simp add: tick_running [OF assms(1,2)] remainingBy_div Let_def)
  moreover have "(timerState w)\<lparr>timeRemaining := timeRemaining (timerState w)\<rparr> = timerState w"
    by simp
  ultimately show ?thesis
    using True by simp
next
  case False
  then show ?thesis
    using assms(3) by (simp add: tick_running [OF assms(1,2)] remainingBy_div Let_def)
qed

text \<open>
  C1: the elapsed-time law. Take a timer state that is running and not paused, with a
  start time, a positive initial duration and a clock that has not gone back behind the
  start; let L be the remaining time the law gives at the instant of the operation.
  Pausing stores L. A tick stores L when L is positive, whatever tick came before and
  whenever it came; when L is 0 it runs the completion handler on the state with 0 seconds
  left (unless 0 was stored already, in which case it leaves the state alone). Reloading
  this state from storage stores L when L is positive and otherwise runs the completion
  handler on the state with 0 seconds left.
\<close>

theorem elapsed_time_law:
  assumes "isRunning t" and "\<not> isPaused t" and "startTime t = Some s" and "s \<noteq> 0"
    and "s \<le> now e" and "0 < initialDuration t"
  defines "L \<equiv> remainingBy s (totalPausedTime t) (initialDuration t) (now e)"
  shows "(timerState w = t \<longrightarrow>
            timeRemaining (timerState (pauseTimer e w)) = L
          \<and> (0 < L \<longrightarrow> timeRemaining (timerState (tick e w)) = L)
          \<and> (0 < L \<and> 0 < remainingBy s (totalPausedTime t) (initialDuration t) (now e0) \<longrightarrow>
                timeRemaining (timerState (tick e (tick e0 w))) = L)
          \<and> (L = 0 \<longrightarrow>
                tick e w =
                  (if timeRemaining t = 0 then w
                   else handleTimerComplete e
                          (w\<lparr>timerState := t\<lparr>timeRemaining := 0, tickInterval := False\<rparr>\<rparr>))))
       \<and> (storageOk e \<and> storedTimerState (storage w) = Some t \<longrightarrow>
            (0 < L \<longrightarrow> timeRemaining (timerState (loadState e w)) = L)
          \<and> (L = 0 \<longrightarrow>
                loadState e w =
                  handleTimerComplete e ((loadSettings e w)\<lparr>timerState := t\<lparr>timeRemaining := 0\<rparr>\<rparr>)))"
proof -
  have nonneg: "0 \<le> L"
    by (simp add: L_def remainingBy_def)
  have Ldiv: "L = max 0 (initialDuration t - of_int ((now e - s - totalPausedTime t) div 1000))"
    by (simp add: L_def remainingBy_div)
  have mem: "timeRemaining (timerState (pauseTimer e w)) = L
          \<and> (0 < L \<longrightarrow> timeRemaining (timerState (tick e w)) = L)
          \<and> (0 < L \<and> 0 < remainingBy s (totalPausedTime t) (initialDuration t) (now e0) \<longrightarrow>
                timeRemaining (timerState (tick e (tick e0 w))) = L)
          \<and> (L = 0 \<longrightarrow>
                tick e w =
                  (if timeRemaining t = 0 then w
                   else handleTimerComplete e
                          (w\<lparr>timerState := t\<lparr>timeRemaining := 0, tickInterval := False\<rparr>\<rparr>)))"
    if w: "timerState w = t"
  proof -
    have run: "isRunning (timerState w)" "\<not> isPaused (timerState w)"
      using assms(1,2) w by simp_all
    have p: "timeRemaining (timerState (pauseTimer e w)) = L"
      using assms(3,4,6) w by (simp add: pauseTimer_timerState [OF run] Ldiv)
    have t1: "timeRemaining (timerState (tick e w)) = L" if "0 < L"
      using that assms(3) w by (simp add: tick_positive [OF run] L_def)
    have t2: "timeRemaining (timerState (tick e (tick e0 w))) = L"
      if "0 < L" and pos0: "0 < remainingBy s (totalPausedTime t) (initialDuration t) (now e0)"
    proof -
      have ts0: "timerState (tick e0 w) =
          t\<lparr>timeRemaining := remainingBy s (totalPausedTime t) (initialDuration t) (now e0)\<rparr>"
        using pos0 assms(3) w tick_positive [OF run, of e0] by simp
      have run0: "isRunning (timerState (tick e0 w))" "\<not> isPaused (timerState (tick e0 w))"
        using assms(1,2) by (simp_all add: ts0)
      show ?thesis
        using \<open>0 < L\<close> assms(3) tick_positive [OF run0, of e] by (simp add: ts0 L_def)
    qed
    have t3: "tick e w =
                  (if timeRemaining t = 0 then w
                   else handleTimerComplete e
                          (w\<lparr>timerState := t\<lparr>timeRemaining := 0, tickInterval := False\<rparr>\<rparr>))"
      if "L = 0"
      using that assms(3) w Ldiv by (simp add: tick_running [OF run] Let_def)
    from p t1 t2 t3 show ?thesis by blast
  qed
  have sto: "(0 < L \<longrightarrow> timeRemaining (timerState (loadState e w)) = L)
          \<and> (L = 0 \<longrightarrow>
                loadState e w =
                  handleTimerComplete e ((loadSettings e w)\<lparr>timerState := t\<lparr>timeRemaining := 0\<rparr>\<rparr>))"
    if ok: "storageOk e" and st: "storedTimerState (storage w) = Some t"
  proof -
    have tt: "truthyTime (startTime t)"
      using assms(3,4) by simp
    show ?thesis
      using nonneg assms(3) Ldiv
      by (auto simp: loadState_running [OF ok st assms(1,2) tt] Let_def)
  qed
  from mem sto show ?thesis by blast
qed

theorem elapsed_time_law_witness:
  "isRunning runningState \<and> \<not> isPaused runningState
   \<and> startTime runningState = Some 1762163938500 \<and> (1762163938500 :: int) \<le> now sampleEnv
   \<and> 0 < initialDuration runningState
   \<and> timerState runningWorld = runningState
   \<and> storageOk sampleEnv \<and> storedTimerState (storage runningWorld) = Some runningState
   \<and> remainingBy 1762163938500 (totalPausedTime runningState) (initialDuration runningState)
        (now sampleEnv) = 1440
   \<and> remainingBy 1762163938500 (totalPausedTime runningState) (initialDuration runningState)
        (now laterEnv) = 1436
   \<and> timeRemaining (timerState (pauseTimer sampleEnv runningWorld)) = 1440
   \<and> timeRemaining (timerState (tick sampleEnv runningWorld)) = 1440
   \<and> timeRemaining (timerState (tick laterEnv (tick sampleEnv runningWorld))) = 1436
   \<and> timeRemaining (timerState (loadState laterEnv runningWorld)) = 1436"
proof -
  have h: "isRunning runningState" "\<not> isPaused runningState"
    "startTime runningState = Some 1762163938500" "(1762163938500 :: int) \<noteq> 0"
    "0 < initialDuration runningState"
    by (simp_all add: runningState_def)
  have n: "(1762163938500 :: int) \<le> now sampleEnv" "(1762163938500 :: int) \<le> now laterEnv"
    by (simp_all add: sampleEnv_def laterEnv_def)
  have w: "timerState runningWorld = runningState"
    "storedTimerState (storage runningWorld) = Some runningState"
    by (simp_all add: runningWorld_def)
  have ok: "storageOk sampleEnv" "storageOk laterEnv"
    by (simp_all add: sampleEnv_def laterEnv_def)
  have L: "remainingBy 1762163938500 (totalPausedTime runningState) (initialDuration runningState)
        (now sampleEnv) = 1440"
    "remainingBy 1762163938500 (totalPausedTime runningState) (initialDuration runningState)
        (now laterEnv) = 1436"
    by (simp_all add: remainingBy_div runningState_def sampleEnv_def laterEnv_def)
  note a = elapsed_time_law [OF h(1-4) n(1) h(5), of runningWorld sampleEnv]
  note b = elapsed_time_law [OF h(1-4) n(2) h(5), of runningWorld sampleEnv]
  show ?thesis
    using h n w ok L a b by simp
qed

section \<open>The flags of the timer state\<close>

lemma storedValid_simps [simp]:
  "storedValid (saveState e w) = (if storageOk e then validPair (timerState w) else storedValid w)"
  "storedValid (scheduleEndAlarm e w) = storedValid w"
  "storedValid (clearEndAlarm w) = storedValid w"
  "storedValid (startTick w) = storedValid w"
  "storedValid (loadSettings e w) = storedValid w"
  "storedValid (updateSessionHistory e w) = storedValid w"
  "storedValid (w\<lparr>timerState := t\<rparr>) = storedValid w"
  "storedValid (w\<lparr>settings := s\<rparr>) = storedValid w"
  by (simp_all add: storedValid_def)

lemma validPair_completedState [simp]: "validPair (completedState e s t)"
  by (simp add: validPair_def completedState_def Let_def)

lemma validPair_tickInterval [simp]: "validPair (t\<lparr>tickInterval := b\<rparr>) = validPair t"
  and validPair_timeRemaining [simp]: "validPair (t\<lparr>timeRemaining := r\<rparr>) = validPair t"
  and validPair_initialDuration [simp]: "validPair (t\<lparr>initialDuration := r\<rparr>) = validPair t"
  by (simp_all add: validPair_def)

lemma handleTimerComplete_valid [simp]:
  "validPair (timerState (handleTimerComplete e w))"
  "storedValid (handleTimerComplete e w) = (storageOk e \<or> storedValid w)"
  by (simp_all add: handleTimerComplete_timerState storedValid_def handleTimerComplete_storage(3))

lemma pairInvariant_handleTimerComplete:
  "storedValid w \<Longrightarrow> pairInvariant (handleTimerComplete e w)"
  by (simp add: pairInvariant_def handleTimerComplete_timerState storedValid_def
      handleTimerComplete_storage(3))

lemma pairInvariant_startTimer:
  assumes "pairInvariant w"
  shows "pairInvariant (startTimer e w)"
proof (cases "isRunning (timerState w) \<and> \<not> isPaused (timerState w)")
  case True
  then show ?thesis using assms by (simp add: startTimer_def)
next
  case False
  show ?thesis
  proof (cases "isPaused (timerState w)")
    case True
    then show ?thesis
      using assms by (simp add: startTimer_def Let_def pairInvariant_def validPair_def)
  next
    case np: False
    then show ?thesis
      using assms False by (simp add: startTimer_def Let_def pairInvariant_def validPair_def)
  qed
qed

lemma pairInvariant_pauseTimer:
  assumes "pairInvariant w"
  shows "pairInvariant (pauseTimer e w)"
proof (cases "isRunning (timerState w) \<and> \<not> isPaused (timerState w)")
  case True
  then have ts: "validPair (timerState (pauseTimer e w))"
    by (simp add: pauseTimer_timerState validPair_def)
  have "storedValid (pauseTimer e w)"
    using True assms
    by (cases "truthyTime (startTime (timerState w))"; cases "initialDuration (timerState w) = 0";
        cases "tickInterval (timerState w)")
       (simp_all add: pauseTimer_def Let_def pairInvariant_def validPair_def)
  with ts show ?thesis by (simp add: pairInvariant_def)
next
  case False
  then show ?thesis using assms by (auto simp: pauseTimer_def)
qed

lemma pairInvariant_resetTimer:
  assumes "pairInvariant w"
  shows "pairInvariant (resetTimer e w)"
  using assms by (simp add: resetTimer_def Let_def pairInvariant_def validPair_def)

lemma pairInvariant_tick:
  assumes "pairInvariant w"
  shows "pairInvariant (tick e w)"
proof (cases "isRunning (timerState w) \<and> \<not> isPaused (timerState w)")
  case True
  then have run: "isRunning (timerState w)" "\<not> isPaused (timerState w)" by simp_all
  show ?thesis
    using assms pairInvariant_handleTimerComplete
    by (simp add: tick_running [OF run] Let_def pairInvariant_def)
next
  case False
  then show ?thesis
    using assms by (auto simp: tick_def Let_def pairInvariant_def)
qed

lemma pairInvariant_loadState:
  assumes "pairInvariant w"
  shows "pairInvariant (loadState e w)"
proof (cases "storageOk e")
  case False
  then show ?thesis using assms by (simp add: loadState_def Let_def pairInvariant_def)
next
  case ok: True
  show ?thesis
  proof (cases "storedTimerState (storage w)")
    case None
    then show ?thesis
      using assms ok by (simp add: loadState_def Let_def pairInvariant_def validPair_def)
  next
    case (Some t)
    with assms have vt: "validPair t" and sv: "storedValid w"
      by (simp_all add: pairInvariant_def storedValid_def)
    show ?thesis
    proof (cases "isRunning t \<and> \<not> isPaused t \<and> truthyTime (startTime t)")
      case True
      then show ?thesis
        using ok Some vt sv pairInvariant_handleTimerComplete
        by (simp add: loadState_running Let_def pairInvariant_def)
    next
      case nr: False
      then show ?thesis
        using ok Some vt sv by (auto simp: loadState_def Let_def pairInvariant_def)
    qed
  qed
qed

lemma pairInvariant_loadSettings:
  "pairInvariant (loadSettings e w) = pairInvariant w"
  by (simp add: pairInvariant_def)

lemma pairInvariant_getState:
  assumes "pairInvariant w"
  shows "pairInvariant (getState e w)"
proof -
  let ?v = "loadState e w"
  have v: "pairInvariant ?v"
    using assms by (rule pairInvariant_loadState)
  then have sv: "storedValid ?v" and vp: "validPair (timerState ?v)"
    by (simp_all add: pairInvariant_def)
  show ?thesis
  proof (cases "isRunning (timerState ?v) \<and> \<not> isPaused (timerState ?v)
                \<and> truthyTime (startTime (timerState ?v)) \<and> initialDuration (timerState ?v) \<noteq> 0")
    case True
    then show ?thesis
      using v sv pairInvariant_handleTimerComplete
      by (simp add: getState_def Let_def pairInvariant_def)
  next
    case nr: False
    then show ?thesis
      using v by (auto simp: getState_def Let_def pairInvariant_def)
  qed
qed

lemma applySettings_running:
  "isRunning (timerState w) \<Longrightarrow> timerState (applySettings e r w) = timerState w"
  by (cases r) (simp_all add: applySettings_def Let_def)

lemma applySettings_settings:
  "settings (applySettings e (Inr s) w) = s"
  by (simp add: applySettings_def Let_def)

lemma pairInvariant_applySettings:
  assumes "pairInvariant w"
  shows "pairInvariant (applySettings e r w)"
proof (cases r)
  case (Inl a)
  then show ?thesis using assms by (simp add: applySettings_def)
next
  case (Inr s)
  then show ?thesis
    using assms
    by (cases "storageOk e"; cases "isRunning (timerState w)"; cases "isPaused (timerState w)")
       (simp_all add: applySettings_def Let_def pairInvariant_def storedValid_def)
qed

lemma pairInvariant_step:
  assumes "pairInvariant w"
  shows "pairInvariant (step e ev w)"
proof -
  have sv: "storedValid w"
    using assms by (simp add: pairInvariant_def)
  show ?thesis
  proof (cases ev)
    case (Message r)
    then show ?thesis
      using assms sv
      by (cases r)
         (simp_all add: pairInvariant_startTimer pairInvariant_pauseTimer pairInvariant_resetTimer
            pairInvariant_getState pairInvariant_applySettings skipSession_def
            updateSettings_def updateDurations_def pairInvariant_handleTimerComplete)
  next
    case Tick
    then show ?thesis using assms by (simp add: pairInvariant_tick)
  next
    case Alarm
    then show ?thesis
      using sv by (simp add: onAlarm_def pairInvariant_handleTimerComplete)
  next
    case Installed
    then show ?thesis
      using assms by (simp add: pairInvariant_loadState pairInvariant_loadSettings)
  next
    case (PopupSavesSettings v)
    then show ?thesis
      using assms by (simp add: pairInvariant_def storedValid_def)
  qed
qed

lemma pairInvariant_initialWorld: "pairInvariant initialWorld"
  by (simp add: pairInvariant_def storedValid_def validPair_def initialWorld_def initialTimerState_def)

lemma reachable_pairInvariant: "reachable w \<Longrightarrow> pairInvariant w"
  by (induction rule: reachable.induct) (simp_all add: pairInvariant_initialWorld pairInvariant_step)









lemma startTimer_idle_flags:
  assumes "\<not> isRunning (timerState w)" "\<not> isPaused (timerState w)"
  shows "isRunning (timerState (startTimer e w))" "\<not> isPaused (timerState (startTimer e w))"
  using assms by (simp_all add: startTimer_def Let_def)

text \<open>
  C8: in every state that the worker reaches from its initial state by messages (start,
  pause, reset, skip, get-state, settings updates), ticks, alarms, reloads and writes of
  the popup to the settings key, at any instants and with storage calls failing or not,
  the timer is never paused without running.
\<close>

theorem paused_implies_running:
  assumes "reachable w"
  shows "\<not> (\<not> isRunning (timerState w) \<and> isPaused (timerState w))"
  using reachable_pairInvariant [OF assms] by (simp add: pairInvariant_def validPair_def)

theorem paused_implies_running_witness:
  "reachable (step laterEnv (Message Pause) (step sampleEnv (Message Start) initialWorld))
   \<and> isPaused (timerState (step laterEnv (Message Pause) (step sampleEnv (Message Start) initialWorld)))
   \<and> isRunning (timerState (step laterEnv (Message Pause) (step sampleEnv (Message Start) initialWorld)))"
proof -
  let ?w1 = "step sampleEnv (Message Start) initialWorld"
  let ?w2 = "step laterEnv (Message Pause) ?w1"
  have r: "reachable ?w2"
    by (intro reachable.step reachable.init)
  have idle: "\<not> isRunning (timerState initialWorld)" "\<not> isPaused (timerState initialWorld)"
    by (simp_all add: initialWorld_def initialTimerState_def)
  have run: "isRunning (timerState ?w1)" "\<not> isPaused (timerState ?w1)"
    using startTimer_idle_flags [OF idle] by simp_all
  have p: "isPaused (timerState ?w2)"
    using pauseTimer_timerState [OF run, of laterEnv] by simp
  from r p paused_implies_running [OF r] show ?thesis by simp
qed

text \<open>
  C9: an \<^verbatim>\<open>updateSettings\<close> message that arrives while the timer is running, paused or
  not, leaves the timer state alone, \<^verbatim>\<open>initialDuration\<close> and \<^verbatim>\<open>timeRemaining\<close> with it.
  The sanitized settings are installed all the same, and the session that the next
  completion starts gets its duration from them.
\<close>

theorem settings_update_frame:
  assumes "isRunning (timerState w)"
  shows "timerState (updateSettings e raw w) = timerState w
       \<and> initialDuration (timerState (updateSettings e raw w)) = initialDuration (timerState w)
       \<and> timeRemaining (timerState (updateSettings e raw w)) = timeRemaining (timerState w)
       \<and> mergeSettings raw (optChain raw ''durations'') = Inr (settings (updateSettings e raw w))
       \<and> initialDuration (timerState (handleTimerComplete e' (updateSettings e raw w)))
           = getSessionDuration (settings (updateSettings e raw w))
               (currentSession (timerState (handleTimerComplete e' (updateSettings e raw w))))"
proof -
  have ts: "timerState (updateSettings e raw w) = timerState w"
    using assms by (simp add: updateSettings_def applySettings_running)
  obtain s where s: "mergeSettings raw (optChain raw ''durations'') = Inr s"
    using mergeSettings_total by blast
  have st: "settings (updateSettings e raw w) = s"
    by (simp add: updateSettings_def s applySettings_settings)
  show ?thesis
    using ts s st by (simp add: handleTimerComplete_timerState completedState_proj)
qed

theorem settings_update_frame_witness:
  "isRunning (timerState runningWorld)
   \<and> timeRemaining (timerState (updateSettings sampleEnv fractionalRaw runningWorld)) = 1440
   \<and> initialDuration (timerState (updateSettings sampleEnv fractionalRaw runningWorld)) = 1500"
proof -
  have h: "isRunning (timerState runningWorld)"
    by (simp add: runningWorld_def runningState_def)
  have f: "timeRemaining (timerState runningWorld) = 1440"
    "initialDuration (timerState runningWorld) = 1500"
    by (simp_all add: runningWorld_def runningState_def)
  show ?thesis
    using h f settings_update_frame [OF h, of sampleEnv fractionalRaw] by simp
qed


end
